theory Spec2Isabelle
  imports Main "HOL-Library.Sublist"
begin

unbundle bit_operations_syntax

section \<open>Python strings\<close>

text \<open>
  A Python \<^verbatim>\<open>str\<close> is modelled as a \<^typ>\<open>string\<close>: a list of characters, each a code
  point below 256. The membership test \<^verbatim>\<open>sub in s\<close> on two strings is
  \<^term>\<open>sublist sub s\<close> (a contiguous occurrence), \<^verbatim>\<open>"a" + "b"\<close> and f-strings are
  \<^term>\<open>(@)\<close>.
\<close>

text \<open>\<^verbatim>\<open>str.isspace\<close> on one character (the code points below 256 that Python
  counts as whitespace).\<close>

definition isspace :: "char \<Rightarrow> bool" where
  "isspace c = (c \<in> set [CHR 0x09, CHR 0x0A, CHR 0x0B, CHR 0x0C, CHR 0x0D,
                          CHR 0x1C, CHR 0x1D, CHR 0x1E, CHR 0x1F, CHR 0x20,
                          CHR 0x85, CHR 0xA0])"

text \<open>The line boundaries of \<^verbatim>\<open>str.splitlines\<close> (below 256).\<close>

definition is_linebreak :: "char \<Rightarrow> bool" where
  "is_linebreak c = (c \<in> set [CHR 0x0A, CHR 0x0B, CHR 0x0C, CHR 0x0D,
                               CHR 0x1C, CHR 0x1D, CHR 0x1E, CHR 0x85])"

text \<open>\<^verbatim>\<open>s.strip()\<close>\<close>

definition strip :: "string \<Rightarrow> string" where
  "strip s = rev (dropWhile isspace (rev (dropWhile isspace s)))"

text \<open>\<^verbatim>\<open>s.split()\<close>: the maximal runs of non-whitespace characters.\<close>

function split_ws :: "string \<Rightarrow> string list" where
  "split_ws s =
     (case dropWhile isspace s of
        [] \<Rightarrow> []
      | c # cs \<Rightarrow> (c # takeWhile (\<lambda>x. \<not> isspace x) cs)
                  # split_ws (dropWhile (\<lambda>x. \<not> isspace x) cs))"
  by pat_completeness auto
termination
proof (relation "measure length")
  show "wf (measure length)" by simp
next
  fix s :: string and c cs
  assume d: "dropWhile isspace s = c # cs"
  have "length (dropWhile (\<lambda>x. \<not> isspace x) cs) \<le> length cs"
    by (rule length_dropWhile_le)
  moreover have "length (c # cs) \<le> length s"
    using length_dropWhile_le [of isspace s] d by simp
  ultimately show "(dropWhile (\<lambda>x. \<not> isspace x) cs, s) \<in> measure length"
    by simp
qed

declare split_ws.simps [simp del]

text \<open>\<^verbatim>\<open>s.splitlines()\<close>: the lines without their boundaries; a carriage return
  followed by a line feed is one boundary, and a final boundary opens no further line.\<close>

function splitlines :: "string \<Rightarrow> string list" where
  "splitlines s =
     (if s = [] then []
      else takeWhile (\<lambda>x. \<not> is_linebreak x) s #
        (case dropWhile (\<lambda>x. \<not> is_linebreak x) s of
           [] \<Rightarrow> []
         | [b] \<Rightarrow> []
         | b # b' # rest \<Rightarrow>
             if b = CHR 0x0D \<and> b' = CHR 0x0A then splitlines rest
             else splitlines (b' # rest)))"
  by pat_completeness auto
termination
proof (relation "measure length")
  show "wf (measure length)" by simp
next
  fix s :: string and b b' rest and x21 x22
  assume "dropWhile (\<lambda>x. \<not> is_linebreak x) s = x21 # x22" and "x22 = b' # rest"
  then have "length (x21 # b' # rest) \<le> length s"
    using length_dropWhile_le [of "\<lambda>x. \<not> is_linebreak x" s] by simp
  then show "(rest, s) \<in> measure length" by simp
next
  fix s :: string and b b' rest and x21 x22
  assume "dropWhile (\<lambda>x. \<not> is_linebreak x) s = x21 # x22" and "x22 = b' # rest"
  then have "length (x21 # b' # rest) \<le> length s"
    using length_dropWhile_le [of "\<lambda>x. \<not> is_linebreak x" s] by simp
  then show "(b' # rest, s) \<in> measure length" by simp
qed

declare splitlines.simps [simp del]

text \<open>\<^verbatim>\<open>sep.join(xs)\<close>\<close>

fun str_join :: "string \<Rightarrow> string list \<Rightarrow> string" where
  "str_join sep [] = []"
| "str_join sep [x] = x"
| "str_join sep (x # y # ys) = x @ sep @ str_join sep (y # ys)"

text \<open>\<^verbatim>\<open>s.split(sep)\<close> for a separator of one character.\<close>

fun split_on :: "char \<Rightarrow> string \<Rightarrow> string list" where
  "split_on sep [] = [[]]"
| "split_on sep (c # cs) =
     (if c = sep then [] # split_on sep cs
      else (case split_on sep cs of
              [] \<Rightarrow> [[c]]
            | x # xs \<Rightarrow> (c # x) # xs))"

text \<open>\<^verbatim>\<open>str(n)\<close> for an integer: decimal digits, a minus sign when negative.\<close>

definition digit_char :: "nat \<Rightarrow> char" where
  "digit_char d = ''0123456789'' ! (d mod 10)"

function str_nat :: "nat \<Rightarrow> string" where
  "str_nat n = (if n < 10 then [digit_char n] else str_nat (n div 10) @ [digit_char (n mod 10)])"
  by pat_completeness auto
termination
  by (relation "measure id") auto

declare str_nat.simps [simp del]

definition str_int :: "int \<Rightarrow> string" where
  "str_int i = (if i < 0 then CHR ''-'' # str_nat (nat (- i)) else str_nat (nat i))"

section \<open>Effects: the trace of an invocation\<close>

text \<open>
  The program talks to the host through \<^verbatim>\<open>subprocess.run\<close>, \<^verbatim>\<open>input\<close> and
  \<^verbatim>\<open>print\<close>. An invocation is modelled by the trace of these calls, in order, and
  by how it ends: a value, or a raised exception. Printing itself is taken not to
  fail.
\<close>

datatype event =
    Print string          \<comment> \<open>\<^verbatim>\<open>print(text)\<close>\<close>
  | Run "string list"     \<comment> \<open>\<^verbatim>\<open>subprocess.run(cmd, capture_output=True, text=True)\<close>\<close>
  | Input string          \<comment> \<open>\<^verbatim>\<open>input(prompt)\<close>\<close>

datatype exn =
    KeyboardInterrupt
  | SystemExit int               \<comment> \<open>\<^verbatim>\<open>exit(n)\<close>, \<^verbatim>\<open>sys.exit(n)\<close>\<close>
  | PyException string string    \<comment> \<open>a subclass of \<^verbatim>\<open>Exception\<close>: class name and message\<close>

datatype 'a result = Ret 'a | Exc exn

record completed_process =
  returncode :: int
  stdout :: string
  stderr :: string

text \<open>
  The host: what a command and a prompt answer, given everything that happened before.
  Either may raise instead (a missing executable, an interrupt at the prompt, end of
  input).
\<close>

record world =
  run_reply :: "event list \<Rightarrow> string list \<Rightarrow> completed_process result"
  input_reply :: "event list \<Rightarrow> string \<Rightarrow> string result"

type_synonym 'a io = "event list \<Rightarrow> 'a result \<times> event list"

definition return :: "'a \<Rightarrow> 'a io" where
  "return x t = (Ret x, t)"

definition raise :: "exn \<Rightarrow> 'a io" where
  "raise e t = (Exc e, t)"

definition bind :: "'a io \<Rightarrow> ('a \<Rightarrow> 'b io) \<Rightarrow> 'b io" where
  "bind m f t = (case m t of (Ret x, t') \<Rightarrow> f x t' | (Exc e, t') \<Rightarrow> (Exc e, t'))"

definition print :: "string \<Rightarrow> unit io" where
  "print s t = (Ret (), t @ [Print s])"

definition subprocess_run :: "world \<Rightarrow> string list \<Rightarrow> completed_process io" where
  "subprocess_run w cmd t = (run_reply w t cmd, t @ [Run cmd])"

definition input :: "world \<Rightarrow> string \<Rightarrow> string io" where
  "input w prompt t = (input_reply w t prompt, t @ [Input prompt])"

text \<open>\<^verbatim>\<open>try: body except <class>: handler\<close>, the class given by the exceptions it
  catches.\<close>

definition try_except :: "'a io \<Rightarrow> (exn \<Rightarrow> bool) \<Rightarrow> (exn \<Rightarrow> 'a io) \<Rightarrow> 'a io" where
  "try_except body catches handler t =
     (case body t of
        (Ret x, t') \<Rightarrow> (Ret x, t')
      | (Exc e, t') \<Rightarrow> if catches e then handler e t' else (Exc e, t'))"

fun is_Exception :: "exn \<Rightarrow> bool" where
  "is_Exception (PyException cls msg) = True"
| "is_Exception KeyboardInterrupt = False"
| "is_Exception (SystemExit n) = False"

fun is_KeyboardInterrupt :: "exn \<Rightarrow> bool" where
  "is_KeyboardInterrupt KeyboardInterrupt = True"
| "is_KeyboardInterrupt (SystemExit n) = False"
| "is_KeyboardInterrupt (PyException cls msg) = False"

text \<open>\<^verbatim>\<open>str(e)\<close> of a caught exception.\<close>

fun str_exn :: "exn \<Rightarrow> string" where
  "str_exn (PyException cls msg) = msg"
| "str_exn KeyboardInterrupt = []"
| "str_exn (SystemExit n) = str_int n"

text \<open>\<^verbatim>\<open>if not x\<close> on an optional string or integer: \<^verbatim>\<open>None\<close>, the empty string
  and zero are all false.\<close>

definition present :: "string option \<Rightarrow> string option" where
  "present x = (case x of None \<Rightarrow> None | Some s \<Rightarrow> if s = [] then None else Some s)"

definition present_int :: "int option \<Rightarrow> int option" where
  "present_int x = (case x of None \<Rightarrow> None | Some i \<Rightarrow> if i = 0 then None else Some i)"

section \<open>Route mutation (configure_wsl_network.py)\<close>

text \<open>The parameter \<^verbatim>\<open>mask\<close> of the source is \<open>mask_str\<close> here, and
  \<^verbatim>\<open>interface_index\<close> is \<open>interface_idx\<close>.\<close>

definition delete_existing_route :: "world \<Rightarrow> string \<Rightarrow> bool \<Rightarrow> unit io" where
  "delete_existing_route w subnet dry =
     (let cmd = [''route'', ''delete'', subnet] in
      if dry then print (''[Dry Run] Command to delete route: '' @ str_join '' '' cmd)
      else bind (subprocess_run w cmd) (\<lambda>r.
        if returncode r = 0
        then print (''Deleted existing route for '' @ subnet @ '':'' @ [CHR 0x0A] @ stdout r)
        else print (''No existing route found for '' @ subnet @ '' or failed to delete:''
                    @ [CHR 0x0A] @ stderr r)))"

definition add_static_route :: "world \<Rightarrow> string \<Rightarrow> string \<Rightarrow> string \<Rightarrow> int \<Rightarrow> bool \<Rightarrow> unit io" where
  "add_static_route w subnet mask_str gw interface_idx dry =
     (let cmd = [''route'', ''add'', subnet, ''MASK'', mask_str, gw, ''IF'', str_int interface_idx] in
      if dry then print (''[Dry Run] Command to add route: '' @ str_join '' '' cmd)
      else bind (subprocess_run w cmd) (\<lambda>r.
        if returncode r = 0
        then print (''Static route added successfully:'' @ [CHR 0x0A] @ stdout r)
        else print (''Failed to add static route:'' @ [CHR 0x0A] @ stderr r)))"

text \<open>The last two statements of \<^verbatim>\<open>main\<close> (lines 166 to 170): delete, then add.\<close>

definition reconcile :: "world \<Rightarrow> string \<Rightarrow> string \<Rightarrow> string \<Rightarrow> int \<Rightarrow> bool \<Rightarrow> unit io" where
  "reconcile w subnet mask_str gw interface_idx dry =
     bind (delete_existing_route w subnet dry)
       (\<lambda>_. add_static_route w subnet mask_str gw interface_idx dry)"

section \<open>Decimal numbers\<close>

definition is_digit :: "char \<Rightarrow> bool" where
  "is_digit c = (c \<in> set ''0123456789'')"

text \<open>The value of a decimal digit, and of a string of decimal digits.\<close>

definition digit_val :: "char \<Rightarrow> nat" where
  "digit_val c = of_char c - 48"

definition int_of_digits :: "string \<Rightarrow> nat" where
  "int_of_digits ds = foldl (\<lambda>acc c. 10 * acc + digit_val c) 0 ds"

text \<open>The interpreter's default bound on the digits of a decimal string that
  \<^verbatim>\<open>int\<close> converts (\<^verbatim>\<open>sys.int_info.default_max_str_digits\<close>).\<close>

definition max_str_digits :: nat where
  "max_str_digits = 4300"

text \<open>A decimal literal as \<^verbatim>\<open>int(s)\<close> accepts it after the sign: digits, with single
  underscores between them.\<close>

fun int_literal_ok :: "string \<Rightarrow> bool" where
  "int_literal_ok [] = False"
| "int_literal_ok [c] = is_digit c"
| "int_literal_ok (c # d # r) =
     (is_digit c \<and> (if d = CHR ''_'' then int_literal_ok r else int_literal_ok (d # r)))"

text \<open>The whitespace that \<^verbatim>\<open>int(s)\<close> skips at both ends of a string (code points
  below 256). It is not the set of \<^verbatim>\<open>str.strip\<close>: the separators U+001C to U+001F
  are not skipped.\<close>

definition int_isspace :: "char \<Rightarrow> bool" where
  "int_isspace c = (c \<in> set [CHR 0x09, CHR 0x0A, CHR 0x0B, CHR 0x0C, CHR 0x0D, CHR 0x20,
                              CHR 0x85, CHR 0xA0])"

text \<open>\<^verbatim>\<open>repr(s)\<close> of a string: quoted, in double quotes when it has a single quote
  and no double quote, with the backslash, the quote and the unprintable characters
  escaped.\<close>

definition printable :: "char \<Rightarrow> bool" where
  "printable c =
     (let n = of_char c :: nat in
      if n < 32 then False
      else if n < 127 then True
      else if n < 161 then False
      else n \<noteq> 173)"

definition hex_digit :: "nat \<Rightarrow> char" where
  "hex_digit d = ''0123456789abcdef'' ! (d mod 16)"

definition repr_char :: "char \<Rightarrow> char \<Rightarrow> string" where
  "repr_char quote c =
     (if c = quote \<or> c = CHR 0x5C then [CHR 0x5C, c]
      else if c = CHR 0x09 then [CHR 0x5C, CHR ''t'']
      else if c = CHR 0x0A then [CHR 0x5C, CHR ''n'']
      else if c = CHR 0x0D then [CHR 0x5C, CHR ''r'']
      else if printable c then [c]
      else [CHR 0x5C, CHR ''x'', hex_digit (of_char c div 16), hex_digit (of_char c mod 16)])"

definition py_repr :: "string \<Rightarrow> string" where
  "py_repr s =
     (let quote = (if CHR 0x27 \<in> set s \<and> CHR 0x22 \<notin> set s then CHR 0x22 else CHR 0x27)
      in [quote] @ concat (map (repr_char quote) s) @ [quote])"

text \<open>
  \<^verbatim>\<open>int(s)\<close> on a string; \<^verbatim>\<open>Inl\<close> is \<^verbatim>\<open>ValueError\<close> with its message. After the
  leading whitespace and one sign comes the longest run of digits and underscores. A
  well-formed run of more than 4300 digits is refused for its length, whatever follows
  it; otherwise the run must be well formed and followed by whitespace only. The message
  of an invalid literal shows at most 200 characters of the string's \<^verbatim>\<open>repr\<close>.
\<close>

definition py_int :: "string \<Rightarrow> string + int" where
  "py_int s =
     (let t = dropWhile int_isspace s;
          neg = (t \<noteq> [] \<and> hd t = CHR ''-'');
          body = (if t \<noteq> [] \<and> (hd t = CHR ''-'' \<or> hd t = CHR ''+'') then tl t else t);
          run = takeWhile (\<lambda>c. is_digit c \<or> c = CHR ''_'') body;
          rest = dropWhile (\<lambda>c. is_digit c \<or> c = CHR ''_'') body;
          ds = filter (\<lambda>c. c \<noteq> CHR ''_'') run
      in if int_literal_ok run \<and> length ds > max_str_digits
         then Inl (''Exceeds the limit ('' @ str_nat max_str_digits
                   @ '' digits) for integer string conversion: value has ''
                   @ str_nat (length ds)
                   @ '' digits; use sys.set_int_max_str_digits() to increase the limit'')
         else if int_literal_ok run \<and> dropWhile int_isspace rest = []
         then Inr (if neg then - int (int_of_digits ds) else int (int_of_digits ds))
         else Inl (''invalid literal for int() with base 10: '' @ take 200 (py_repr s)))"

section \<open>The standard library's \<^verbatim>\<open>ipaddress.IPv4Network\<close>\<close>

text \<open>
  \<^verbatim>\<open>parse_cidr\<close> delegates to \<^verbatim>\<open>ipaddress.IPv4Network(cidr, strict=False)\<close> of the
  Python standard library. The functions below follow that module's methods of the
  same names (CPython 3.11), on a string argument. Both of its errors are subclasses of
  \<^verbatim>\<open>ValueError\<close>. Python's integers are unbounded: they are \<^typ>\<open>int\<close> here, with
  the bitwise operations of \<^typ>\<open>int\<close>.
\<close>

datatype ip_error = AddressValueError | NetmaskValueError

record ipv4network =
  network_address :: int
  netmask :: int
  prefixlen :: nat

definition ALL_ONES :: int where
  "ALL_ONES = 2 ^ 32 - 1"

definition split_optional_netmask :: "string \<Rightarrow> ip_error + string list" where
  "split_optional_netmask address =
     (let addr = split_on CHR ''/'' address in
      if length addr > 2 then Inl AddressValueError else Inr addr)"

text \<open>\<^verbatim>\<open>_parse_octet\<close>; \<^verbatim>\<open>None\<close> is its \<^verbatim>\<open>ValueError\<close>.\<close>

definition parse_octet :: "string \<Rightarrow> int option" where
  "parse_octet octet_str =
     (if octet_str = [] then None
      else if \<not> list_all is_digit octet_str then None
      else if length octet_str > 3 then None
      else if octet_str \<noteq> ''0'' \<and> hd octet_str = CHR ''0'' then None
      else let octet_int = int (int_of_digits octet_str) in
        if octet_int > 255 then None else Some octet_int)"

text \<open>\<^verbatim>\<open>int.from_bytes(bs, 'big')\<close>\<close>

definition from_bytes_big :: "int list \<Rightarrow> int" where
  "from_bytes_big bs = foldl (\<lambda>acc b. acc * 256 + b) 0 bs"

definition ip_int_from_string :: "string \<Rightarrow> ip_error + int" where
  "ip_int_from_string ip_str =
     (if ip_str = [] then Inl AddressValueError
      else let octets = split_on CHR ''.'' ip_str in
        if length octets \<noteq> 4 then Inl AddressValueError
        else (case those (map parse_octet octets) of
                None \<Rightarrow> Inl AddressValueError
              | Some bs \<Rightarrow> Inr (from_bytes_big bs)))"

text \<open>\<^verbatim>\<open>IPv4Address(addr)\<close> on a string: the address as an integer.\<close>

definition IPv4Address :: "string \<Rightarrow> ip_error + int" where
  "IPv4Address addr_str =
     (if CHR ''/'' \<in> set addr_str then Inl AddressValueError
      else ip_int_from_string addr_str)"

definition ip_int_from_prefix :: "nat \<Rightarrow> int" where
  "ip_int_from_prefix n = ALL_ONES XOR (drop_bit n ALL_ONES)"

text \<open>\<^verbatim>\<open>n.bit_length()\<close>\<close>

function bit_length :: "int \<Rightarrow> nat" where
  "bit_length n = (if n = 0 then 0 else Suc (bit_length (\<bar>n\<bar> div 2)))"
  by pat_completeness auto
termination
  by (relation "measure (\<lambda>n. nat \<bar>n\<bar>)") auto

declare bit_length.simps [simp del]

definition count_righthand_zero_bits :: "int \<Rightarrow> nat \<Rightarrow> nat" where
  "count_righthand_zero_bits number bits =
     (if number = 0 then bits
      else min bits (bit_length (NOT number AND (number - 1))))"

text \<open>\<^verbatim>\<open>_prefix_from_ip_int\<close>; \<^verbatim>\<open>None\<close> is its \<^verbatim>\<open>ValueError\<close>.\<close>

definition prefix_from_ip_int :: "int \<Rightarrow> nat option" where
  "prefix_from_ip_int ip_int =
     (let trailing_zeroes = count_righthand_zero_bits ip_int 32;
          n = 32 - trailing_zeroes;
          leading_ones = drop_bit trailing_zeroes ip_int;
          all_ones = push_bit n 1 - 1
      in if leading_ones \<noteq> all_ones then None else Some n)"

definition prefix_from_prefix_string :: "string \<Rightarrow> ip_error + nat" where
  "prefix_from_prefix_string prefixlen_str =
     (if \<not> (prefixlen_str \<noteq> [] \<and> list_all is_digit prefixlen_str) then Inl NetmaskValueError
      else (case py_int prefixlen_str of
              Inl msg \<Rightarrow> Inl NetmaskValueError
            | Inr n \<Rightarrow> if \<not> (0 \<le> n \<and> n \<le> 32) then Inl NetmaskValueError else Inr (nat n)))"

definition prefix_from_ip_string :: "string \<Rightarrow> ip_error + nat" where
  "prefix_from_ip_string ip_str =
     (case ip_int_from_string ip_str of
        Inl e \<Rightarrow> Inl NetmaskValueError
      | Inr ip_int \<Rightarrow>
          (case prefix_from_ip_int ip_int of
             Some n \<Rightarrow> Inr n
           | None \<Rightarrow>
               (case prefix_from_ip_int (ip_int XOR ALL_ONES) of
                  Some n \<Rightarrow> Inr n
                | None \<Rightarrow> Inl NetmaskValueError)))"

text \<open>\<^verbatim>\<open>_make_netmask\<close>: the argument is the integer 32 when the string had no
  \<^verbatim>\<open>/\<close>, the text after the \<^verbatim>\<open>/\<close> otherwise. The result is the mask and the
  prefix length.\<close>

definition make_netmask :: "int + string \<Rightarrow> ip_error + (int \<times> nat)" where
  "make_netmask arg =
     (case (case arg of
              Inl n \<Rightarrow> if \<not> (0 \<le> n \<and> n \<le> 32) then Inl NetmaskValueError else Inr (nat n)
            | Inr str \<Rightarrow>
                (case prefix_from_prefix_string str of
                   Inr n \<Rightarrow> Inr n
                 | Inl e \<Rightarrow> prefix_from_ip_string str)) of
        Inl e \<Rightarrow> Inl e
      | Inr n \<Rightarrow> Inr (ip_int_from_prefix n, n))"

definition split_addr_prefix :: "string \<Rightarrow> ip_error + (string \<times> (int + string))" where
  "split_addr_prefix address =
     (case split_optional_netmask address of
        Inl e \<Rightarrow> Inl e
      | Inr parts \<Rightarrow>
          (case parts of
             a # m # rest \<Rightarrow> Inr (a, Inr m)
           | [a] \<Rightarrow> Inr (a, Inl 32)
           | [] \<Rightarrow> Inl AddressValueError))"

text \<open>\<^verbatim>\<open>IPv4Network(address, strict=False)\<close>\<close>

definition IPv4Network :: "string \<Rightarrow> ip_error + ipv4network" where
  "IPv4Network address =
     (case split_addr_prefix address of
        Inl e \<Rightarrow> Inl e
      | Inr (addr, m) \<Rightarrow>
          (case IPv4Address addr of
             Inl e \<Rightarrow> Inl e
           | Inr packed \<Rightarrow>
               (case make_netmask m of
                  Inl e \<Rightarrow> Inl e
                | Inr (nm, n) \<Rightarrow>
                    Inr \<lparr> network_address =
                            (if packed AND nm \<noteq> packed then packed AND nm else packed),
                          netmask = nm, prefixlen = n \<rparr>)))"

text \<open>\<^verbatim>\<open>n.to_bytes(4, 'big')\<close>, for \<open>n\<close> from 0 to \<open>2 ^ 32 - 1\<close> as every address
  and mask above is, and \<^verbatim>\<open>_string_from_ip_int\<close>, that is \<^verbatim>\<open>str\<close> of an address.\<close>

definition to_bytes4_big :: "int \<Rightarrow> int list" where
  "to_bytes4_big n = [n div 2 ^ 24 mod 256, n div 2 ^ 16 mod 256, n div 2 ^ 8 mod 256, n mod 256]"

definition string_from_ip_int :: "int \<Rightarrow> string" where
  "string_from_ip_int ip_int = str_join ''.'' (map str_int (to_bytes4_big ip_int))"

section \<open>configure_wsl_network.py\<close>

definition parse_cidr :: "string \<Rightarrow> (string \<times> string) io" where
  "parse_cidr c =
     (case IPv4Network c of
        Inr network \<Rightarrow>
          return (string_from_ip_int (network_address network),
                  string_from_ip_int (netmask network))
      | Inl e \<Rightarrow>
          bind (print (''Invalid CIDR format: '' @ c)) (\<lambda>_. raise (SystemExit 1)))"

text \<open>The loop over the lines of \<^verbatim>\<open>get_wsl_ip_cidr\<close>; indexing a list of fewer
  than two tokens raises \<^verbatim>\<open>IndexError\<close>.\<close>

fun inet_loop :: "string list \<Rightarrow> string option io" where
  "inet_loop [] = bind (print ''No IP address found for eth0.'') (\<lambda>_. return None)"
| "inet_loop (line # rest) =
     (if sublist ''inet'' line
      then (case split_ws (strip line) of
              t0 # t1 # ts \<Rightarrow> return (Some t1)
            | _ \<Rightarrow> raise (PyException ''IndexError'' ''list index out of range''))
      else inet_loop rest)"

definition get_wsl_ip_cidr :: "world \<Rightarrow> string option io" where
  "get_wsl_ip_cidr w =
     try_except
       (bind (subprocess_run w [''wsl'', ''ip'', ''-4'', ''addr'', ''show'', ''eth0'']) (\<lambda>r.
          if returncode r \<noteq> 0
          then bind (print (''Error running command: '' @ stderr r)) (\<lambda>_. return None)
          else inet_loop (splitlines (stdout r))))
       is_Exception
       (\<lambda>e. bind (print (''Error retrieving WSL IP address in CIDR format: '' @ str_exn e))
               (\<lambda>_. return None))"

definition get_network_adapters :: "world \<Rightarrow> unit io" where
  "get_network_adapters w =
     bind (subprocess_run w
        [''powershell'', ''-Command'',
         ''Get-NetIPConfiguration | Select-Object InterfaceAlias, InterfaceIndex, IPv4Address, @''
         @ ''{Name='' @ [CHR 0x27] @ ''IPv4DefaultGateway'' @ [CHR 0x27]
         @ ''; Expression={$_.IPv4DefaultGateway.NextHop}}'']) (\<lambda>r.
       if returncode r = 0
       then bind (print ''Available Network Interfaces:'') (\<lambda>_. print (stdout r))
       else print (''Failed to retrieve network adapters:'' @ [CHR 0x0A] @ stderr r))"

definition get_gateway_from_nic :: "world \<Rightarrow> int \<Rightarrow> string option io" where
  "get_gateway_from_nic w interface_idx =
     bind (subprocess_run w
        [''powershell'', ''-Command'',
         ''Get-NetIPConfiguration | Where-Object { $_.InterfaceIndex -eq '' @ str_int interface_idx
         @ '' } | Select-Object -ExpandProperty IPv4DefaultGateway | Select-Object -ExpandProperty NextHop'']) (\<lambda>r.
       if returncode r = 0
       then (let gw = strip (stdout r) in
             if gw \<noteq> [] then return (Some gw)
             else bind (print (''No gateway found for interface index '' @ [CHR 0x27]
                               @ str_int interface_idx @ [CHR 0x27] @ ''.''))
                    (\<lambda>_. return None))
       else bind (print (''Failed to retrieve gateway for interface index '' @ [CHR 0x27]
                         @ str_int interface_idx @ [CHR 0x27] @ '':'' @ [CHR 0x0A] @ stderr r))
              (\<lambda>_. return None))"

text \<open>The loop over the lines of \<^verbatim>\<open>check_route_status\<close>.\<close>

fun route_loop :: "string \<Rightarrow> string list \<Rightarrow> bool io" where
  "route_loop subnet [] =
     bind (print (''No route found for '' @ subnet @ ''.'')) (\<lambda>_. return False)"
| "route_loop subnet (line # rest) =
     (if sublist subnet line
      then bind (print (''Route exists for '' @ subnet @ '':'')) (\<lambda>_.
           bind (print (strip line)) (\<lambda>_. return True))
      else route_loop subnet rest)"

definition check_route_status :: "world \<Rightarrow> string \<Rightarrow> bool io" where
  "check_route_status w subnet =
     bind (subprocess_run w [''route'', ''print'']) (\<lambda>r.
       if returncode r \<noteq> 0
       then bind (print ''Failed to retrieve route information.'') (\<lambda>_. return False)
       else route_loop subnet (splitlines (stdout r)))"

record args =
  cidr :: "string option"
  gateway :: "string option"
  interface_index :: "int option"
  dry_run :: bool
  status :: bool

text \<open>\<^verbatim>\<open>main\<close>, lines 139 to 143: the CIDR text.\<close>

definition main_cidr :: "world \<Rightarrow> args \<Rightarrow> string io" where
  "main_cidr w a =
     (case present (cidr a) of
        Some c \<Rightarrow> return c
      | None \<Rightarrow>
          bind (get_wsl_ip_cidr w) (\<lambda>r.
            case present r of
              Some c \<Rightarrow> return c
            | None \<Rightarrow>
                input w ''Enter the WSL instance IP address in CIDR format (e.g., 172.16.0.0/12): ''))"

text \<open>\<^verbatim>\<open>main\<close>, lines 153 to 157: the interface index.\<close>

definition main_interface_index :: "world \<Rightarrow> args \<Rightarrow> int io" where
  "main_interface_index w a =
     (case present_int (interface_index a) of
        Some i \<Rightarrow> return i
      | None \<Rightarrow>
          bind (print ''Available network adapters:'') (\<lambda>_.
          bind (get_network_adapters w) (\<lambda>_.
          bind (input w ''Enter the InterfaceIndex of the desired NIC: '') (\<lambda>s.
            case py_int s of
              Inr i \<Rightarrow> return i
            | Inl msg \<Rightarrow> raise (PyException ''ValueError'' msg)))))"

text \<open>\<^verbatim>\<open>main\<close>, lines 159 to 164: the gateway.\<close>

definition main_gateway :: "world \<Rightarrow> args \<Rightarrow> int \<Rightarrow> string io" where
  "main_gateway w a interface_idx =
     (case present (gateway a) of
        Some g \<Rightarrow> return g
      | None \<Rightarrow>
          bind (get_gateway_from_nic w interface_idx) (\<lambda>r.
            case present r of
              Some g \<Rightarrow> return g
            | None \<Rightarrow>
                bind (print ''Unable to determine the gateway. Please provide it manually.'') (\<lambda>_.
                  input w ''Enter the gateway IP address of the desired NIC: '')))"

definition main :: "world \<Rightarrow> args \<Rightarrow> unit io" where
  "main w a =
     try_except
       (bind (main_cidr w a) (\<lambda>c.
        bind (parse_cidr c) (\<lambda>(subnet, mask_str).
          if status a then bind (check_route_status w subnet) (\<lambda>_. return ())
          else
            bind (main_interface_index w a) (\<lambda>interface_idx.
            bind (main_gateway w a interface_idx) (\<lambda>gw.
              reconcile w subnet mask_str gw interface_idx (dry_run a))))))
       is_KeyboardInterrupt
       (\<lambda>e. bind (print ([CHR 0x0A] @ ''Operation cancelled by user.'')) (\<lambda>_. raise (SystemExit 0)))"

text \<open>The exit status of the process: 0 when \<^verbatim>\<open>main\<close> returns, the argument of
  \<^verbatim>\<open>exit\<close>, and 1 when an exception reaches the top level. (An interrupt does not
  reach it, since \<^verbatim>\<open>main\<close> catches it; its equation only makes the function total.)\<close>

fun exit_status :: "unit result \<Rightarrow> int" where
  "exit_status (Ret u) = 0"
| "exit_status (Exc (SystemExit n)) = n"
| "exit_status (Exc KeyboardInterrupt) = 1"
| "exit_status (Exc (PyException cls msg)) = 1"

section \<open>wsl_get_ip.py\<close>

fun wsl_get_ip_inet_loop :: "string list \<Rightarrow> string option io" where
  "wsl_get_ip_inet_loop [] = bind (print ''No IP address found for eth0.'') (\<lambda>_. return None)"
| "wsl_get_ip_inet_loop (line # rest) =
     (if sublist ''inet'' line
      then (case split_ws (strip line) of
              t0 # t1 # ts \<Rightarrow> return (Some t1)
            | _ \<Rightarrow> raise (PyException ''IndexError'' ''list index out of range''))
      else wsl_get_ip_inet_loop rest)"

definition wsl_get_ip_get_wsl_ip_cidr :: "world \<Rightarrow> string option io" where
  "wsl_get_ip_get_wsl_ip_cidr w =
     try_except
       (bind (subprocess_run w [''wsl'', ''ip'', ''-4'', ''addr'', ''show'', ''eth0'']) (\<lambda>r.
          if returncode r \<noteq> 0
          then bind (print (''Error running command: '' @ stderr r)) (\<lambda>_. return None)
          else wsl_get_ip_inet_loop (splitlines (stdout r))))
       is_Exception
       (\<lambda>e. bind (print (''Error retrieving WSL IP address in CIDR format: '' @ str_exn e))
               (\<lambda>_. return None))"

section \<open>Reading a trace\<close>

text \<open>The commands an invocation ran, in order, and the two that change the host's
  route table.\<close>

fun commands :: "event list \<Rightarrow> string list list" where
  "commands [] = []"
| "commands (Run cmd # es) = cmd # commands es"
| "commands (Print s # es) = commands es"
| "commands (Input s # es) = commands es"

definition is_route_mutation :: "string list \<Rightarrow> bool" where
  "is_route_mutation cmd =
     (case cmd of
        a # b # rest \<Rightarrow> a = ''route'' \<and> (b = ''delete'' \<or> b = ''add'')
      | _ \<Rightarrow> False)"

text \<open>A computation is quiet when it runs no route delete and no route add, whatever
  the trace it starts from and whatever the host answers.\<close>

definition quiet :: "'a io \<Rightarrow> bool" where
  "quiet m = (\<forall>t. filter is_route_mutation (commands (snd (m t))) =
                   filter is_route_mutation (commands t))"

text \<open>A computation grows the trace: it only ever adds events at its end.\<close>

definition grows :: "'a io \<Rightarrow> bool" where
  "grows m = (\<forall>t. prefix t (snd (m t)))"

section \<open>Scenario hosts\<close>

text \<open>Hosts for the concrete runs below: every command answers from a table, every
  prompt with the same typed line.\<close>

definition host :: "(string list \<Rightarrow> completed_process) \<Rightarrow> string \<Rightarrow> world" where
  "host reply typed =
     \<lparr>run_reply = (\<lambda>t cmd. Ret (reply cmd)), input_reply = (\<lambda>t prompt. Ret typed)\<rparr>"

text \<open>A host on which every command succeeds.\<close>

definition reply_ok :: "string list \<Rightarrow> completed_process" where
  "reply_ok cmd = \<lparr>returncode = 0, stdout = '' OK!'', stderr = []\<rparr>"

text \<open>A host with no route for the subnet: \<^verbatim>\<open>route delete\<close> fails, the rest succeeds.\<close>

definition reply_no_route :: "string list \<Rightarrow> completed_process" where
  "reply_no_route cmd =
     (if take 2 cmd = [''route'', ''delete'']
      then \<lparr>returncode = 1, stdout = [],
            stderr = ''The route deletion failed: Element not found.''\<rparr>
      else \<lparr>returncode = 0, stdout = '' OK!'', stderr = []\<rparr>)"

text \<open>A host that rejects the new route: \<^verbatim>\<open>route add\<close> fails, the rest succeeds.\<close>

definition reply_add_fails :: "string list \<Rightarrow> completed_process" where
  "reply_add_fails cmd =
     (if take 2 cmd = [''route'', ''add'']
      then \<lparr>returncode = 1, stdout = [],
            stderr = ''The route addition failed: The parameter is incorrect.''\<rparr>
      else \<lparr>returncode = 0, stdout = '' OK!'', stderr = []\<rparr>)"

text \<open>A host whose route table cannot be read: \<^verbatim>\<open>route print\<close> fails.\<close>

definition reply_print_fails :: "string list \<Rightarrow> completed_process" where
  "reply_print_fails cmd =
     (if cmd = [''route'', ''print'']
      then \<lparr>returncode = 1, stdout = [], stderr = ''Access is denied.''\<rparr>
      else \<lparr>returncode = 0, stdout = '' OK!'', stderr = []\<rparr>)"

text \<open>A host whose route table has a line for 172.16.0.0, and one whose table has
  only the default route.\<close>

definition route_table_text :: string where
  "route_table_text =
     ''Active Routes:'' @ [CHR 0x0A]
     @ ''   0.0.0.0      0.0.0.0  192.168.1.1  192.168.1.20  25'' @ [CHR 0x0A]
     @ ''   172.16.0.0  255.240.0.0  192.168.1.1  192.168.1.20  26'' @ [CHR 0x0A]"

definition reply_route_table :: "string list \<Rightarrow> completed_process" where
  "reply_route_table cmd =
     (if cmd = [''route'', ''print'']
      then \<lparr>returncode = 0, stdout = route_table_text, stderr = []\<rparr>
      else \<lparr>returncode = 0, stdout = '' OK!'', stderr = []\<rparr>)"

definition reply_default_route_only :: "string list \<Rightarrow> completed_process" where
  "reply_default_route_only cmd =
     (if cmd = [''route'', ''print'']
      then \<lparr>returncode = 0,
            stdout = ''   0.0.0.0      0.0.0.0  192.168.1.1  192.168.1.20  25'' @ [CHR 0x0A],
            stderr = []\<rparr>
      else \<lparr>returncode = 0, stdout = '' OK!'', stderr = []\<rparr>)"

text \<open>A guest whose answer has a line with the address marker and nothing else on it,
  and one with the usual answer.\<close>

definition reply_inet_only :: "string list \<Rightarrow> completed_process" where
  "reply_inet_only cmd = \<lparr>returncode = 0, stdout = ''inet'' @ [CHR 0x0A], stderr = []\<rparr>"

definition reply_guest_address :: "string list \<Rightarrow> completed_process" where
  "reply_guest_address cmd =
     \<lparr>returncode = 0,
      stdout = ''2: eth0: <UP> mtu 1500'' @ [CHR 0x0A]
               @ ''    inet 172.22.34.5/20 brd 172.22.47.255 scope global eth0'' @ [CHR 0x0A],
      stderr = []\<rparr>"

text \<open>A host whose chosen adapter has no default gateway: the lookup prints an empty
  line, the rest succeeds.\<close>

definition reply_no_gateway :: "string list \<Rightarrow> completed_process" where
  "reply_no_gateway cmd =
     (if take 1 cmd = [''powershell'']
      then \<lparr>returncode = 0, stdout = [CHR 0x0A], stderr = []\<rparr>
      else \<lparr>returncode = 0, stdout = '' OK!'', stderr = []\<rparr>)"

section \<open>Laws of sequencing\<close>

lemma bind_return [simp]: "bind (return x) f t = f x t"
  by (simp add: bind_def return_def)

lemma bind_raise [simp]: "bind (raise e) f t = (Exc e, t)"
  by (simp add: bind_def raise_def)

lemma bind_print [simp]: "bind (print s) f t = f () (t @ [Print s])"
  by (simp add: bind_def print_def)

lemma bind_subprocess_run:
  "bind (subprocess_run w cmd) f t =
     (case run_reply w t cmd of
        Ret r \<Rightarrow> f r (t @ [Run cmd])
      | Exc e \<Rightarrow> (Exc e, t @ [Run cmd]))"
  by (simp add: bind_def subprocess_run_def split: result.split)

lemma bind_input:
  "bind (input w prompt) f t =
     (case input_reply w t prompt of
        Ret s \<Rightarrow> f s (t @ [Input prompt])
      | Exc e \<Rightarrow> (Exc e, t @ [Input prompt]))"
  by (simp add: bind_def input_def split: result.split)

lemma bind_Ret: "m t = (Ret x, t') \<Longrightarrow> bind m f t = f x t'"
  by (simp add: bind_def)

lemma bind_Exc: "m t = (Exc e, t') \<Longrightarrow> bind m f t = (Exc e, t')"
  by (simp add: bind_def)

lemma bind_assoc: "bind (bind m f) g = bind m (\<lambda>x. bind (f x) g)"
  by (rule ext) (simp add: bind_def split: prod.split result.split)

lemma try_except_Ret: "body t = (Ret x, t') \<Longrightarrow> try_except body c h t = (Ret x, t')"
  by (simp add: try_except_def)

lemma try_except_Exc:
  "body t = (Exc e, t') \<Longrightarrow> try_except body c h t = (if c e then h e t' else (Exc e, t'))"
  by (simp add: try_except_def)

lemma commands_append [simp]: "commands (xs @ ys) = commands xs @ commands ys"
  by (induction xs rule: commands.induct) simp_all

section \<open>Evaluating the address parser\<close>

lemma IPv4Network_172_16_0_0_12:
  "IPv4Network ''172.16.0.0/12'' =
     Inr \<lparr>network_address = 2886729728, netmask = 4293918720, prefixlen = 12\<rparr>"
  by code_simp

lemma string_from_ip_int_172_16_0_0: "string_from_ip_int 2886729728 = ''172.16.0.0''"
  by code_simp

lemma string_from_ip_int_255_240_0_0: "string_from_ip_int 4293918720 = ''255.240.0.0''"
  by code_simp

lemma parse_cidr_172_16_0_0_12:
  "parse_cidr ''172.16.0.0/12'' t = (Ret (''172.16.0.0'', ''255.240.0.0''), t)"
  by (simp add: parse_cidr_def return_def IPv4Network_172_16_0_0_12
        string_from_ip_int_172_16_0_0 string_from_ip_int_255_240_0_0)

lemma str_int_7: "str_int 7 = ''7''"
  by code_simp

section \<open>Quiet computations\<close>

lemma quiet_return [simp]: "quiet (return x)"
  by (simp add: quiet_def return_def)

lemma quiet_raise [simp]: "quiet (raise e)"
  by (simp add: quiet_def raise_def)

lemma quiet_print [simp]: "quiet (print s)"
  by (simp add: quiet_def print_def)

lemma quiet_input [simp]: "quiet (input w prompt)"
  by (simp add: quiet_def input_def)

lemma quiet_subprocess_run: "\<not> is_route_mutation cmd \<Longrightarrow> quiet (subprocess_run w cmd)"
  by (simp add: quiet_def subprocess_run_def)

lemma quiet_bind:
  assumes "quiet m" and "\<And>x. quiet (f x)"
  shows "quiet (bind m f)"
  unfolding quiet_def
proof
  fix t
  obtain r t' where mt: "m t = (r, t')" by (cases "m t")
  have 1: "filter is_route_mutation (commands t') = filter is_route_mutation (commands t)"
    using assms(1) mt by (auto simp: quiet_def dest: spec [of _ t])
  show "filter is_route_mutation (commands (snd (bind m f t))) =
        filter is_route_mutation (commands t)"
  proof (cases r)
    case (Ret x)
    have "filter is_route_mutation (commands (snd (f x t'))) =
          filter is_route_mutation (commands t')"
      using assms(2) [of x] by (simp add: quiet_def)
    with Ret mt 1 show ?thesis by (simp add: bind_def)
  next
    case (Exc e)
    with mt 1 show ?thesis by (simp add: bind_def)
  qed
qed

lemma quiet_try_except:
  assumes "quiet body" and "\<And>e. quiet (h e)"
  shows "quiet (try_except body c h)"
  unfolding quiet_def
proof
  fix t
  obtain r t' where mt: "body t = (r, t')" by (cases "body t")
  have 1: "filter is_route_mutation (commands t') = filter is_route_mutation (commands t)"
    using assms(1) mt by (auto simp: quiet_def dest: spec [of _ t])
  have 2: "filter is_route_mutation (commands (snd (h e t'))) =
           filter is_route_mutation (commands t')" for e
    using assms(2) [of e] by (simp add: quiet_def)
  show "filter is_route_mutation (commands (snd (try_except body c h t))) =
        filter is_route_mutation (commands t)"
    using mt 1 2 by (cases r) (simp_all add: try_except_def)
qed

lemma quiet_inet_loop: "quiet (inet_loop ls)"
  by (induction ls)
     (auto intro!: quiet_bind split: list.split simp del: bind_print bind_return bind_raise)

lemma quiet_get_wsl_ip_cidr: "quiet (get_wsl_ip_cidr w)"
  unfolding get_wsl_ip_cidr_def
  by (intro quiet_try_except quiet_bind quiet_subprocess_run)
     (simp_all add: is_route_mutation_def quiet_inet_loop quiet_bind
        del: bind_print bind_return bind_raise)

lemma quiet_get_network_adapters: "quiet (get_network_adapters w)"
  unfolding get_network_adapters_def
  by (intro quiet_bind quiet_subprocess_run)
     (simp_all add: is_route_mutation_def quiet_bind del: bind_print bind_return bind_raise)

lemma quiet_get_gateway_from_nic: "quiet (get_gateway_from_nic w i)"
  unfolding get_gateway_from_nic_def
  by (intro quiet_bind quiet_subprocess_run)
     (simp_all add: is_route_mutation_def quiet_bind Let_def
        del: bind_print bind_return bind_raise)

lemma quiet_route_loop: "quiet (route_loop subnet ls)"
  by (induction ls) (auto intro!: quiet_bind simp del: bind_print bind_return bind_raise)

lemma quiet_check_route_status: "quiet (check_route_status w subnet)"
  unfolding check_route_status_def
  by (intro quiet_bind quiet_subprocess_run)
     (simp_all add: is_route_mutation_def quiet_bind quiet_route_loop
        del: bind_print bind_return bind_raise)

lemma quiet_parse_cidr: "quiet (parse_cidr c)"
  by (simp add: parse_cidr_def quiet_bind split: sum.split
        del: bind_print bind_return bind_raise)

lemma quiet_main_cidr: "quiet (main_cidr w a)"
  by (auto simp: main_cidr_def intro!: quiet_bind quiet_get_wsl_ip_cidr split: option.split
        simp del: bind_print bind_return bind_raise)

lemma quiet_main_interface_index: "quiet (main_interface_index w a)"
  by (auto simp: main_interface_index_def intro!: quiet_bind quiet_get_network_adapters
        split: option.split sum.split simp del: bind_print bind_return bind_raise)

lemma quiet_main_gateway: "quiet (main_gateway w a i)"
  by (auto simp: main_gateway_def intro!: quiet_bind quiet_get_gateway_from_nic
        split: option.split simp del: bind_print bind_return bind_raise)

lemma quiet_reconcile_dry_run: "quiet (reconcile w subnet mask_str gw i True)"
  by (simp add: reconcile_def delete_existing_route_def add_static_route_def quiet_bind
        del: bind_print bind_return bind_raise)

text \<open>With \<^verbatim>\<open>--dry-run\<close> or \<^verbatim>\<open>--status\<close> the whole invocation is quiet, wherever
  its values come from.\<close>

lemma main_no_mutation:
  assumes "dry_run a \<or> status a"
  shows "quiet (main w a)"
  unfolding main_def
  using assms
  by (intro quiet_try_except quiet_bind quiet_main_cidr quiet_parse_cidr)
     (auto intro!: quiet_bind quiet_check_route_status quiet_main_interface_index
        quiet_main_gateway quiet_reconcile_dry_run
        simp del: bind_print bind_return bind_raise)

text \<open>An interrupt never leaves \<^verbatim>\<open>main\<close>: it is caught and turned into exit status 0.\<close>

lemma main_catches_interrupt: "fst (main w a t) \<noteq> Exc KeyboardInterrupt"
proof -
  have "e \<noteq> KeyboardInterrupt" if "\<not> is_KeyboardInterrupt e" for e
    using that by (cases e) simp_all
  then show ?thesis
    by (auto simp: main_def try_except_def print_def bind_def raise_def
          split: prod.split result.split)
qed

section \<open>Computations only add events\<close>

lemma grows_return [simp]: "grows (return x)"
  by (simp add: grows_def return_def)

lemma grows_raise [simp]: "grows (raise e)"
  by (simp add: grows_def raise_def)

lemma grows_print [simp]: "grows (print s)"
  by (simp add: grows_def print_def)

lemma grows_input [simp]: "grows (input w prompt)"
  by (simp add: grows_def input_def)

lemma grows_subprocess_run [simp]: "grows (subprocess_run w cmd)"
  by (simp add: grows_def subprocess_run_def)

lemma grows_bind:
  assumes "grows m" and "\<And>x. grows (f x)"
  shows "grows (bind m f)"
  unfolding grows_def
proof
  fix t
  obtain r t' where mt: "m t = (r, t')" by (cases "m t")
  have 1: "prefix t t'"
    using assms(1) mt by (auto simp: grows_def dest: spec [of _ t])
  show "prefix t (snd (bind m f t))"
  proof (cases r)
    case (Ret x)
    have "prefix t' (snd (f x t'))"
      using assms(2) [of x] by (simp add: grows_def)
    with 1 have "prefix t (snd (f x t'))"
      by (rule prefix_order.trans)
    with Ret mt show ?thesis by (simp add: bind_def)
  next
    case (Exc e)
    with mt 1 show ?thesis by (simp add: bind_def)
  qed
qed

text \<open>What runs before a continuation and a handler stays at the front of the trace.\<close>

lemma try_except_bind_prefix:
  assumes "\<And>x. grows (f x)" and "\<And>e. grows (h e)"
  shows "prefix (snd (m t)) (snd (try_except (bind m f) c h t))"
proof -
  obtain r t' where mt: "m t = (r, t')" by (cases "m t")
  obtain r2 t2 where bt: "bind m f t = (r2, t2)" by (cases "bind m f t")
  have 1: "prefix t' t2"
  proof (cases r)
    case (Ret x)
    have "prefix t' (snd (f x t'))"
      using assms(1) [of x] by (simp add: grows_def)
    with Ret mt bt show ?thesis by (simp add: bind_def)
  next
    case (Exc e)
    with mt bt show ?thesis by (simp add: bind_def)
  qed
  have 2: "prefix t2 (snd (try_except (bind m f) c h t))"
  proof (cases r2)
    case (Ret x)
    with bt show ?thesis by (simp add: try_except_def)
  next
    case (Exc e)
    have "prefix t2 (snd (h e t2))"
      using assms(2) [of e] by (simp add: grows_def)
    with Exc bt show ?thesis by (simp add: try_except_def)
  qed
  from 1 2 have "prefix t' (snd (try_except (bind m f) c h t))"
    by (rule prefix_order.trans)
  with mt show ?thesis by simp
qed

lemma grows_get_gateway_from_nic: "grows (get_gateway_from_nic w i)"
  unfolding get_gateway_from_nic_def
  by (intro grows_bind grows_subprocess_run)
     (simp_all add: grows_bind Let_def del: bind_print bind_return bind_raise)

lemma grows_main_gateway: "grows (main_gateway w a i)"
  by (auto simp: main_gateway_def intro!: grows_bind grows_get_gateway_from_nic
        split: option.split simp del: bind_print bind_return bind_raise)

lemma grows_delete_existing_route: "grows (delete_existing_route w subnet dry)"
  by (auto simp: delete_existing_route_def Let_def intro!: grows_bind
        simp del: bind_print bind_return bind_raise)

lemma grows_add_static_route: "grows (add_static_route w subnet mask_str gw i dry)"
  by (auto simp: add_static_route_def Let_def intro!: grows_bind
        simp del: bind_print bind_return bind_raise)

lemma grows_reconcile: "grows (reconcile w subnet mask_str gw i dry)"
  unfolding reconcile_def
  by (intro grows_bind grows_delete_existing_route grows_add_static_route)

section \<open>Dry run\<close>

text \<open>
  C1. With \<^verbatim>\<open>dry_run\<close> set, the delete and add steps run no command at all: for every
  subnet, mask, gateway and adapter index, and whatever the host would answer, they add
  exactly two printed lines to the trace, the delete preview first and the add preview
  second. For the CIDR 172.16.0.0/12, gateway 192.168.1.1 and adapter index 7 the whole
  invocation prints \<^verbatim>\<open>route delete 172.16.0.0\<close> and
  \<^verbatim>\<open>route add 172.16.0.0 MASK 255.240.0.0 192.168.1.1 IF 7\<close>, and runs nothing.
\<close>

theorem reconcile_dry_run:
  "reconcile w subnet mask_str gw idx True t =
     (Ret (), t @ [Print (''[Dry Run] Command to delete route: route delete '' @ subnet),
                   Print (''[Dry Run] Command to add route: route add '' @ subnet @ '' MASK ''
                          @ mask_str @ '' '' @ gw @ '' IF '' @ str_int idx)])
   \<and> commands (snd (reconcile w subnet mask_str gw idx True t)) = commands t
   \<and> main w \<lparr>cidr = Some ''172.16.0.0/12'', gateway = Some ''192.168.1.1'',
              interface_index = Some 7, dry_run = True, status = False\<rparr> [] =
     (Ret (), [Print ''[Dry Run] Command to delete route: route delete 172.16.0.0'',
               Print ''[Dry Run] Command to add route: route add 172.16.0.0 MASK 255.240.0.0 192.168.1.1 IF 7''])"
proof -
  have r: "reconcile w subnet mask_str gw idx True t =
     (Ret (), t @ [Print (''[Dry Run] Command to delete route: route delete '' @ subnet),
                   Print (''[Dry Run] Command to add route: route add '' @ subnet @ '' MASK ''
                          @ mask_str @ '' '' @ gw @ '' IF '' @ str_int idx)])"
    for w subnet mask_str gw idx t
    by (simp add: reconcile_def delete_existing_route_def add_static_route_def print_def)
  have m: "main w \<lparr>cidr = Some ''172.16.0.0/12'', gateway = Some ''192.168.1.1'',
              interface_index = Some 7, dry_run = True, status = False\<rparr> [] =
     (Ret (), [Print ''[Dry Run] Command to delete route: route delete 172.16.0.0'',
               Print ''[Dry Run] Command to add route: route add 172.16.0.0 MASK 255.240.0.0 192.168.1.1 IF 7''])"
    by (simp add: main_def main_cidr_def main_interface_index_def main_gateway_def
          present_def present_int_def bind_Ret [OF parse_cidr_172_16_0_0_12] r str_int_7
          try_except_def)
  show ?thesis
    using m by (simp add: r)
qed

section \<open>Live reconciliation\<close>

lemma main_explicit:
  assumes "present (cidr a) = Some c" and "IPv4Network c = Inr n" and "\<not> status a"
    and "present_int (interface_index a) = Some i" and "present (gateway a) = Some g"
  shows "main w a t =
     try_except
       (reconcile w (string_from_ip_int (network_address n)) (string_from_ip_int (netmask n))
          g i (dry_run a))
       is_KeyboardInterrupt
       (\<lambda>e. bind (print ([CHR 0x0A] @ ''Operation cancelled by user.''))
               (\<lambda>_. raise (SystemExit 0)))
       t"
  using assms
  by (simp add: main_def main_cidr_def main_interface_index_def main_gateway_def
        parse_cidr_def try_except_def)

lemma add_static_route_live:
  "add_static_route w subnet mask_str gw idx False t =
     (case run_reply w t [''route'', ''add'', subnet, ''MASK'', mask_str, gw, ''IF'', str_int idx] of
        Exc e \<Rightarrow>
          (Exc e, t @ [Run [''route'', ''add'', subnet, ''MASK'', mask_str, gw, ''IF'', str_int idx]])
      | Ret r2 \<Rightarrow>
          (Ret (), t @ [Run [''route'', ''add'', subnet, ''MASK'', mask_str, gw, ''IF'', str_int idx],
                  Print (if returncode r2 = 0
                         then ''Static route added successfully:'' @ [CHR 0x0A] @ stdout r2
                         else ''Failed to add static route:'' @ [CHR 0x0A] @ stderr r2)]))"
  by (simp add: add_static_route_def bind_subprocess_run print_def split: result.split)

lemma reconcile_live:
  "reconcile w subnet mask_str gw idx False t =
     (case run_reply w t [''route'', ''delete'', subnet] of
        Exc e \<Rightarrow> (Exc e, t @ [Run [''route'', ''delete'', subnet]])
      | Ret r1 \<Rightarrow>
          add_static_route w subnet mask_str gw idx False
            (t @ [Run [''route'', ''delete'', subnet],
                  Print (if returncode r1 = 0
                         then ''Deleted existing route for '' @ subnet @ '':'' @ [CHR 0x0A] @ stdout r1
                         else ''No existing route found for '' @ subnet @ '' or failed to delete:''
                              @ [CHR 0x0A] @ stderr r1)]))"
  by (simp add: reconcile_def delete_existing_route_def bind_assoc bind_subprocess_run
        split: result.split)

text \<open>
  C2, as the code has it. When the delete command returns a non-zero exit code, be it
  because the route is absent or for any other reason (the code does not tell the two
  apart), one line \<^verbatim>\<open>No existing route found for <subnet> or failed to delete:\<close> with
  the command's error output is printed, nothing is raised, and the add command is the
  next thing run.
\<close>

theorem reconcile_delete_nonzero_reported:
  assumes "run_reply w t [''route'', ''delete'', subnet] = Ret r1" and "returncode r1 \<noteq> 0"
  shows "reconcile w subnet mask_str gw idx False t =
     add_static_route w subnet mask_str gw idx False
       (t @ [Run [''route'', ''delete'', subnet],
             Print (''No existing route found for '' @ subnet @ '' or failed to delete:''
                      @ [CHR 0x0A] @ stderr r1)])
   \<and> (\<exists>rest. snd (reconcile w subnet mask_str gw idx False t) =
         t @ [Run [''route'', ''delete'', subnet],
              Print (''No existing route found for '' @ subnet @ '' or failed to delete:''
                       @ [CHR 0x0A] @ stderr r1),
              Run [''route'', ''add'', subnet, ''MASK'', mask_str, gw, ''IF'', str_int idx]]
           @ rest)"
  using assms by (simp add: reconcile_live add_static_route_live split: result.split)

theorem reconcile_delete_nonzero_reported_witness:
  "returncode (reply_no_route [''route'', ''delete'', ''172.16.0.0'']) \<noteq> 0
   \<and> (\<exists>rest. snd (reconcile (host reply_no_route []) ''172.16.0.0'' ''255.240.0.0''
                      ''192.168.1.1'' 7 False []) =
         [Run [''route'', ''delete'', ''172.16.0.0''],
          Print (''No existing route found for 172.16.0.0 or failed to delete:'' @ [CHR 0x0A]
                 @ ''The route deletion failed: Element not found.''),
          Run [''route'', ''add'', ''172.16.0.0'', ''MASK'', ''255.240.0.0'', ''192.168.1.1'',
               ''IF'', ''7'']] @ rest)"
proof -
  have rc: "returncode (reply_no_route [''route'', ''delete'', ''172.16.0.0'']) \<noteq> 0"
    by (simp add: reply_no_route_def)
  have run: "run_reply (host reply_no_route []) [] [''route'', ''delete'', ''172.16.0.0''] =
      Ret (reply_no_route [''route'', ''delete'', ''172.16.0.0''])"
    by (simp add: host_def)
  note th = reconcile_delete_nonzero_reported
    [OF run rc, of "''255.240.0.0''" "''192.168.1.1''" 7, THEN conjunct2]
  have "stderr (reply_no_route [''route'', ''delete'', ''172.16.0.0'']) =
      ''The route deletion failed: Element not found.''"
    by (simp add: reply_no_route_def)
  with th rc show ?thesis
    by (simp add: str_int_7)
qed

text \<open>
  The claim as it is written fails: on a host where \<^verbatim>\<open>route delete\<close> fails because
  there is nothing to delete, the run is not silent about the deletion. Its second event
  is the printed report.
\<close>

theorem reconcile_absent_route_not_silent:
  "reconcile (host reply_no_route []) ''172.16.0.0'' ''255.240.0.0'' ''192.168.1.1'' 7 False [] =
    (Ret (), [Run [''route'', ''delete'', ''172.16.0.0''],
       Print (''No existing route found for 172.16.0.0 or failed to delete:'' @ [CHR 0x0A]
              @ ''The route deletion failed: Element not found.''),
       Run [''route'', ''add'', ''172.16.0.0'', ''MASK'', ''255.240.0.0'', ''192.168.1.1'',
            ''IF'', ''7''],
       Print (''Static route added successfully:'' @ [CHR 0x0A] @ '' OK!'')])"
  by (simp add: reconcile_live add_static_route_live host_def reply_no_route_def str_int_7)

text \<open>
  C3. When the delete command succeeds and the add command then returns a non-zero exit
  code, the failure is printed and nothing else happens: the trace is exactly delete,
  its report, add, \<^verbatim>\<open>Failed to add static route:\<close> with the command's error output.
  No further command is run (no second add, no re-add of the old route), so the host is
  left with the route deleted and the new one absent. An invocation whose CIDR, index
  and gateway are all given ends there, returning normally.
\<close>

theorem reconcile_add_failure_no_rollback:
  assumes "run_reply w t [''route'', ''delete'', subnet] = Ret r1" and "returncode r1 = 0"
    and "run_reply w
           (t @ [Run [''route'', ''delete'', subnet],
                 Print (''Deleted existing route for '' @ subnet @ '':'' @ [CHR 0x0A] @ stdout r1)])
           [''route'', ''add'', subnet, ''MASK'', mask_str, gw, ''IF'', str_int idx] = Ret r2"
    and "returncode r2 \<noteq> 0"
  shows "reconcile w subnet mask_str gw idx False t =
     (Ret (), t @ [Run [''route'', ''delete'', subnet],
                   Print (''Deleted existing route for '' @ subnet @ '':'' @ [CHR 0x0A] @ stdout r1),
                   Run [''route'', ''add'', subnet, ''MASK'', mask_str, gw, ''IF'', str_int idx],
                   Print (''Failed to add static route:'' @ [CHR 0x0A] @ stderr r2)])
   \<and> commands (snd (reconcile w subnet mask_str gw idx False t)) =
       commands t @ [[''route'', ''delete'', subnet],
                     [''route'', ''add'', subnet, ''MASK'', mask_str, gw, ''IF'', str_int idx]]
   \<and> (present (cidr a) = Some c \<and> IPv4Network c = Inr n
        \<and> subnet = string_from_ip_int (network_address n)
        \<and> mask_str = string_from_ip_int (netmask n)
        \<and> \<not> status a \<and> \<not> dry_run a
        \<and> present_int (interface_index a) = Some idx \<and> present (gateway a) = Some gw
      \<longrightarrow> main w a t = reconcile w subnet mask_str gw idx False t)"
proof -
  have r: "reconcile w subnet mask_str gw idx False t =
     (Ret (), t @ [Run [''route'', ''delete'', subnet],
                   Print (''Deleted existing route for '' @ subnet @ '':'' @ [CHR 0x0A] @ stdout r1),
                   Run [''route'', ''add'', subnet, ''MASK'', mask_str, gw, ''IF'', str_int idx],
                   Print (''Failed to add static route:'' @ [CHR 0x0A] @ stderr r2)])"
    using assms by (simp add: reconcile_live add_static_route_live)
  have "main w a t = reconcile w subnet mask_str gw idx False t"
    if "present (cidr a) = Some c" and "IPv4Network c = Inr n"
      and "subnet = string_from_ip_int (network_address n)"
      and "mask_str = string_from_ip_int (netmask n)"
      and "\<not> status a" and "\<not> dry_run a"
      and "present_int (interface_index a) = Some idx" and "present (gateway a) = Some gw"
  proof -
    have "main w a t =
        try_except (reconcile w subnet mask_str gw idx False) is_KeyboardInterrupt
          (\<lambda>e. bind (print ([CHR 0x0A] @ ''Operation cancelled by user.''))
                  (\<lambda>_. raise (SystemExit 0))) t"
      using that main_explicit [of a c n idx gw w t] by simp
    then show ?thesis
      using r by (simp add: try_except_Ret)
  qed
  then show ?thesis
    using r by simp
qed

theorem reconcile_add_failure_no_rollback_witness:
  "returncode (reply_add_fails [''route'', ''delete'', ''172.16.0.0'']) = 0
   \<and> returncode (reply_add_fails [''route'', ''add'', ''172.16.0.0'', ''MASK'', ''255.240.0.0'',
                                   ''192.168.1.1'', ''IF'', ''7'']) \<noteq> 0
   \<and> main (host reply_add_fails [])
        \<lparr>cidr = Some ''172.16.0.0/12'', gateway = Some ''192.168.1.1'',
         interface_index = Some 7, dry_run = False, status = False\<rparr> [] =
      (Ret (), [Run [''route'', ''delete'', ''172.16.0.0''],
                Print (''Deleted existing route for 172.16.0.0:'' @ [CHR 0x0A] @ '' OK!''),
                Run [''route'', ''add'', ''172.16.0.0'', ''MASK'', ''255.240.0.0'',
                     ''192.168.1.1'', ''IF'', ''7''],
                Print (''Failed to add static route:'' @ [CHR 0x0A]
                       @ ''The route addition failed: The parameter is incorrect.'')])"
  using reconcile_add_failure_no_rollback
    [of "host reply_add_fails []" "[]" "''172.16.0.0''"
        "reply_add_fails [''route'', ''delete'', ''172.16.0.0'']"
        "''255.240.0.0''" "''192.168.1.1''" 7
        "reply_add_fails [''route'', ''add'', ''172.16.0.0'', ''MASK'', ''255.240.0.0'',
                          ''192.168.1.1'', ''IF'', ''7'']"
        "\<lparr>cidr = Some ''172.16.0.0/12'', gateway = Some ''192.168.1.1'',
          interface_index = Some 7, dry_run = False, status = False\<rparr>"
        "''172.16.0.0/12''"
        "\<lparr>network_address = 2886729728, netmask = 4293918720, prefixlen = 12\<rparr>"]
  by (simp add: host_def reply_add_fails_def str_int_7 present_def present_int_def
        IPv4Network_172_16_0_0_12 string_from_ip_int_172_16_0_0 string_from_ip_int_255_240_0_0)

section \<open>The guest interface query\<close>

lemma inet_loop_eq:
  "inet_loop ls t =
     (case find (sublist ''inet'') ls of
        None \<Rightarrow> (Ret None, t @ [Print ''No IP address found for eth0.''])
      | Some line \<Rightarrow>
          (case split_ws (strip line) of
             t0 # t1 # ts \<Rightarrow> (Ret (Some t1), t)
           | _ \<Rightarrow> (Exc (PyException ''IndexError'' ''list index out of range''), t)))"
  by (induction ls) (simp_all add: return_def raise_def split: list.split)

lemma wsl_get_ip_inet_loop_eq: "wsl_get_ip_inet_loop ls = inet_loop ls"
  by (induction ls) simp_all

lemma get_wsl_ip_cidr_eq:
  "get_wsl_ip_cidr w t =
     (case run_reply w t [''wsl'', ''ip'', ''-4'', ''addr'', ''show'', ''eth0''] of
        Exc e \<Rightarrow>
          if is_Exception e
          then (Ret None, t @ [Run [''wsl'', ''ip'', ''-4'', ''addr'', ''show'', ''eth0''],
                  Print (''Error retrieving WSL IP address in CIDR format: '' @ str_exn e)])
          else (Exc e, t @ [Run [''wsl'', ''ip'', ''-4'', ''addr'', ''show'', ''eth0'']])
      | Ret r \<Rightarrow>
          if returncode r \<noteq> 0
          then (Ret None, t @ [Run [''wsl'', ''ip'', ''-4'', ''addr'', ''show'', ''eth0''],
                  Print (''Error running command: '' @ stderr r)])
          else
            (case find (sublist ''inet'') (splitlines (stdout r)) of
               None \<Rightarrow>
                 (Ret None, t @ [Run [''wsl'', ''ip'', ''-4'', ''addr'', ''show'', ''eth0''],
                    Print ''No IP address found for eth0.''])
             | Some line \<Rightarrow>
                 (case split_ws (strip line) of
                    t0 # t1 # ts \<Rightarrow>
                      (Ret (Some t1),
                       t @ [Run [''wsl'', ''ip'', ''-4'', ''addr'', ''show'', ''eth0'']])
                  | _ \<Rightarrow>
                      (Ret None, t @ [Run [''wsl'', ''ip'', ''-4'', ''addr'', ''show'', ''eth0''],
                         Print ''Error retrieving WSL IP address in CIDR format: list index out of range'']))))"
  by (simp add: get_wsl_ip_cidr_def try_except_def bind_subprocess_run inet_loop_eq return_def
        split: result.split option.split list.split)

lemma get_wsl_ip_cidr_commands:
  "commands (snd (get_wsl_ip_cidr w t)) =
     commands t @ [[''wsl'', ''ip'', ''-4'', ''addr'', ''show'', ''eth0'']]"
  by (simp add: get_wsl_ip_cidr_eq split: result.split option.split list.split)

lemma wsl_get_ip_same: "wsl_get_ip_get_wsl_ip_cidr w = get_wsl_ip_cidr w"
  unfolding wsl_get_ip_get_wsl_ip_cidr_def get_wsl_ip_cidr_def wsl_get_ip_inet_loop_eq ..

lemma splitlines_inet_only: "splitlines (''inet'' @ [CHR 0x0A]) = [''inet'']"
  by code_simp

lemma split_ws_inet_only: "split_ws (strip ''inet'') = [''inet'']"
  by code_simp

lemma sublist_inet_inet: "sublist ''inet'' ''inet''"
  by simp

text \<open>
  C8, as the code has it. The query returns \<^verbatim>\<open>None\<close> when the command raises an
  \<^verbatim>\<open>Exception\<close> or exits with a non-zero code, and when no line of its output contains
  \<^verbatim>\<open>inet\<close>. Otherwise it looks at the first line that contains \<^verbatim>\<open>inet\<close> and at
  no other: with two or more whitespace-separated tokens on that line the result is the
  second token, with fewer it is \<^verbatim>\<open>None\<close> (the \<^verbatim>\<open>IndexError\<close> is caught). An
  interrupt raised by the command is not caught. The copy in wsl_get_ip.py is the same
  function.
\<close>

theorem get_wsl_ip_cidr_result:
  "fst (get_wsl_ip_cidr w t) =
     (case run_reply w t [''wsl'', ''ip'', ''-4'', ''addr'', ''show'', ''eth0''] of
        Exc e \<Rightarrow> if is_Exception e then Ret None else Exc e
      | Ret r \<Rightarrow>
          if returncode r \<noteq> 0 then Ret None
          else Ret (case find (sublist ''inet'') (splitlines (stdout r)) of
                      None \<Rightarrow> None
                    | Some line \<Rightarrow>
                        (case split_ws (strip line) of
                           t0 # t1 # ts \<Rightarrow> Some t1
                         | _ \<Rightarrow> None)))
   \<and> wsl_get_ip_get_wsl_ip_cidr w t = get_wsl_ip_cidr w t"
  by (simp add: get_wsl_ip_cidr_eq wsl_get_ip_same split: result.split option.split list.split)

text \<open>
  The claim as it is written fails: the command succeeds and its output has a line
  containing \<^verbatim>\<open>inet\<close>, yet the query returns \<^verbatim>\<open>None\<close>, since that line has no
  second token.
\<close>

theorem get_wsl_ip_cidr_single_token_line:
  "returncode (reply_inet_only [''wsl'', ''ip'', ''-4'', ''addr'', ''show'', ''eth0'']) = 0
   \<and> find (sublist ''inet'')
        (splitlines (stdout (reply_inet_only [''wsl'', ''ip'', ''-4'', ''addr'', ''show'', ''eth0''])))
      = Some ''inet''
   \<and> get_wsl_ip_cidr (host reply_inet_only []) [] =
       (Ret None, [Run [''wsl'', ''ip'', ''-4'', ''addr'', ''show'', ''eth0''],
                   Print ''Error retrieving WSL IP address in CIDR format: list index out of range''])"
  by (simp add: get_wsl_ip_cidr_eq host_def reply_inet_only_def splitlines_inet_only
        split_ws_inet_only del: append.simps)

lemma splitlines_guest_address:
  "splitlines (''2: eth0: <UP> mtu 1500'' @ [CHR 0x0A]
               @ ''    inet 172.22.34.5/20 brd 172.22.47.255 scope global eth0'' @ [CHR 0x0A]) =
     [''2: eth0: <UP> mtu 1500'',
      ''    inet 172.22.34.5/20 brd 172.22.47.255 scope global eth0'']"
  by code_simp

lemma find_guest_address:
  "find (sublist ''inet'')
     [''2: eth0: <UP> mtu 1500'',
      ''    inet 172.22.34.5/20 brd 172.22.47.255 scope global eth0''] =
     Some ''    inet 172.22.34.5/20 brd 172.22.47.255 scope global eth0''"
  by code_simp

lemma split_ws_guest_address:
  "split_ws (strip ''    inet 172.22.34.5/20 brd 172.22.47.255 scope global eth0'') =
     [''inet'', ''172.22.34.5/20'', ''brd'', ''172.22.47.255'', ''scope'', ''global'', ''eth0'']"
  by code_simp

lemma get_wsl_ip_cidr_guest_address:
  "get_wsl_ip_cidr (host reply_guest_address []) [] =
     (Ret (Some ''172.22.34.5/20''), [Run [''wsl'', ''ip'', ''-4'', ''addr'', ''show'', ''eth0'']])"
  by (simp add: get_wsl_ip_cidr_eq host_def reply_guest_address_def splitlines_guest_address
        find_guest_address split_ws_guest_address del: append.simps find.simps)

section \<open>The route table check and the stages of main\<close>

lemma route_loop_result:
  "fst (route_loop subnet ls t) = Ret (\<exists>l \<in> set ls. sublist subnet l)"
  by (induction ls arbitrary: t) (simp_all add: return_def)

lemma route_loop_found:
  "find (sublist subnet) ls = Some l \<Longrightarrow>
   route_loop subnet ls t =
     (Ret True, t @ [Print (''Route exists for '' @ subnet @ '':''), Print (strip l)])"
  by (induction ls arbitrary: t) (auto simp: return_def split: if_splits)

lemma check_route_status_eq:
  "check_route_status w subnet t =
     (case run_reply w t [''route'', ''print''] of
        Exc e \<Rightarrow> (Exc e, t @ [Run [''route'', ''print'']])
      | Ret r \<Rightarrow>
          if returncode r \<noteq> 0
          then (Ret False, t @ [Run [''route'', ''print''],
                                Print ''Failed to retrieve route information.''])
          else route_loop subnet (splitlines (stdout r)) (t @ [Run [''route'', ''print'']]))"
  by (simp add: check_route_status_def bind_subprocess_run return_def split: result.split)

lemma main_cidr_commands:
  "filter is_route_mutation (commands (snd (main_cidr w a t))) =
     filter is_route_mutation (commands t)
   \<and> set (commands (snd (main_cidr w a t))) \<subseteq>
       set (commands t) \<union> {[''wsl'', ''ip'', ''-4'', ''addr'', ''show'', ''eth0'']}"
proof (cases "present (cidr a)")
  case (Some c)
  then show ?thesis by (auto simp: main_cidr_def return_def)
next
  case None
  obtain r t1 where g: "get_wsl_ip_cidr w t = (r, t1)" by (cases "get_wsl_ip_cidr w t")
  have c: "commands t1 = commands t @ [[''wsl'', ''ip'', ''-4'', ''addr'', ''show'', ''eth0'']]"
    using get_wsl_ip_cidr_commands [of w t] g by simp
  show ?thesis
    using None g c
    by (cases r)
       (auto simp: main_cidr_def bind_def return_def input_def is_route_mutation_def
             split: option.split)
qed

lemma main_cong:
  assumes "main_cidr w a = main_cidr w b" and "status a = status b"
    and "main_interface_index w a = main_interface_index w b"
    and "main_gateway w a = main_gateway w b" and "dry_run a = dry_run b"
  shows "main w a = main w b"
  unfolding main_def assms ..

lemma splitlines_route_table:
  "splitlines route_table_text =
     [''Active Routes:'',
      ''   0.0.0.0      0.0.0.0  192.168.1.1  192.168.1.20  25'',
      ''   172.16.0.0  255.240.0.0  192.168.1.1  192.168.1.20  26'']"
  by code_simp

lemma find_route_table:
  "find (sublist ''172.16.0.0'')
     [''Active Routes:'',
      ''   0.0.0.0      0.0.0.0  192.168.1.1  192.168.1.20  25'',
      ''   172.16.0.0  255.240.0.0  192.168.1.1  192.168.1.20  26''] =
   Some ''   172.16.0.0  255.240.0.0  192.168.1.1  192.168.1.20  26''"
  by code_simp

lemma strip_route_line:
  "strip ''   172.16.0.0  255.240.0.0  192.168.1.1  192.168.1.20  26'' =
     ''172.16.0.0  255.240.0.0  192.168.1.1  192.168.1.20  26''"
  by code_simp

lemma splitlines_default_route_only:
  "splitlines (''   0.0.0.0      0.0.0.0  192.168.1.1  192.168.1.20  25'' @ [CHR 0x0A]) =
     [''   0.0.0.0      0.0.0.0  192.168.1.1  192.168.1.20  25'']"
  by code_simp

lemma no_match_default_route_only:
  "\<not> sublist ''172.16.0.0'' ''   0.0.0.0      0.0.0.0  192.168.1.1  192.168.1.20  25''"
  by code_simp

text \<open>
  C7. When the route table is read (\<^verbatim>\<open>route print\<close> exits with code 0), the check
  returns true exactly when some line of the printed text contains the subnet string as
  a substring; nothing of the line is parsed. An invocation with \<^verbatim>\<open>--status\<close> whose
  table has such a line prints that the route exists and the stripped line, and returns;
  the only commands it can have run are the guest query for the CIDR and
  \<^verbatim>\<open>route print\<close>, so no adapter enumeration, no route delete and no route add.
\<close>

theorem check_route_status_substring:
  "(run_reply w t [''route'', ''print''] = Ret r \<and> returncode r = 0 \<longrightarrow>
      fst (check_route_status w subnet t) =
        Ret (\<exists>l \<in> set (splitlines (stdout r)). sublist subnet l))
   \<and> (status a \<and> main_cidr w a t = (Ret c, t0) \<and> IPv4Network c = Inr n
        \<and> run_reply w t0 [''route'', ''print''] = Ret r' \<and> returncode r' = 0
        \<and> find (sublist (string_from_ip_int (network_address n))) (splitlines (stdout r'))
            = Some l
      \<longrightarrow> main w a t =
            (Ret (), t0 @ [Run [''route'', ''print''],
                           Print (''Route exists for '' @ string_from_ip_int (network_address n)
                                  @ '':''),
                           Print (strip l)])
          \<and> set (commands (snd (main w a t))) \<subseteq>
              set (commands t) \<union> {[''wsl'', ''ip'', ''-4'', ''addr'', ''show'', ''eth0''],
                                    [''route'', ''print'']})"
proof -
  have m: "main w a t =
            (Ret (), t0 @ [Run [''route'', ''print''],
                           Print (''Route exists for '' @ string_from_ip_int (network_address n)
                                  @ '':''),
                           Print (strip l)])"
    if "status a" and mc: "main_cidr w a t = (Ret c, t0)" and "IPv4Network c = Inr n"
      and "run_reply w t0 [''route'', ''print''] = Ret r'" and "returncode r' = 0"
      and "find (sublist (string_from_ip_int (network_address n))) (splitlines (stdout r'))
            = Some l"
    using that
    by (simp add: main_def try_except_def bind_Ret [where m = "main_cidr w a", OF mc]
          parse_cidr_def check_route_status_eq route_loop_found bind_def return_def)
  have s: "set (commands t0) \<subseteq>
             set (commands t) \<union> {[''wsl'', ''ip'', ''-4'', ''addr'', ''show'', ''eth0'']}"
    if "main_cidr w a t = (Ret c, t0)"
    using main_cidr_commands [of w a t] that by simp
  show ?thesis
    using m s by (auto simp: check_route_status_eq route_loop_result)
qed

theorem check_route_status_substring_witness:
  "returncode (reply_route_table [''route'', ''print'']) = 0
   \<and> fst (check_route_status (host reply_route_table []) ''172.16.0.0'' []) = Ret True
   \<and> main (host reply_route_table [])
        \<lparr>cidr = Some ''172.16.0.0/12'', gateway = None, interface_index = None,
         dry_run = False, status = True\<rparr> [] =
       (Ret (), [Run [''route'', ''print''],
                 Print ''Route exists for 172.16.0.0:'',
                 Print ''172.16.0.0  255.240.0.0  192.168.1.1  192.168.1.20  26''])"
proof -
  let ?w = "host reply_route_table []"
  let ?a = "\<lparr>cidr = Some ''172.16.0.0/12'', gateway = None, interface_index = None,
              dry_run = False, status = True\<rparr>"
  let ?r = "reply_route_table [''route'', ''print'']"
  let ?n = "\<lparr>network_address = 2886729728, netmask = 4293918720, prefixlen = 12\<rparr>"
  have rc: "returncode ?r = 0" and out: "stdout ?r = route_table_text"
    by (simp_all add: reply_route_table_def)
  have run: "run_reply ?w [] [''route'', ''print''] = Ret ?r"
    by (simp add: host_def)
  have mc: "main_cidr ?w ?a [] = (Ret ''172.16.0.0/12'', [])"
    by (simp add: main_cidr_def present_def return_def)
  have fnd: "find (sublist (string_from_ip_int (network_address ?n))) (splitlines (stdout ?r)) =
      Some ''   172.16.0.0  255.240.0.0  192.168.1.1  192.168.1.20  26''"
    by (simp only: out splitlines_route_table ipv4network.simps string_from_ip_int_172_16_0_0
          find_route_table)
  have ex: "(\<exists>l \<in> set (splitlines (stdout ?r)). sublist ''172.16.0.0'' l) = True"
    using fnd by (auto simp: string_from_ip_int_172_16_0_0 find_Some_iff)
  note th = check_route_status_substring
    [of ?w "[]" ?r "''172.16.0.0''" ?a "''172.16.0.0/12''" "[]" ?n ?r
        "''   172.16.0.0  255.240.0.0  192.168.1.1  192.168.1.20  26''"]
  have p1: "fst (check_route_status ?w ''172.16.0.0'' []) = Ret True"
    using th [THEN conjunct1] run rc ex by simp
  have p2: "main ?w ?a [] =
       (Ret (), [Run [''route'', ''print''],
                 Print ''Route exists for 172.16.0.0:'',
                 Print ''172.16.0.0  255.240.0.0  192.168.1.1  192.168.1.20  26''])"
    using th [THEN conjunct2] run rc mc fnd IPv4Network_172_16_0_0_12
    by (simp add: string_from_ip_int_172_16_0_0 strip_route_line)
  show ?thesis
    using rc p1 p2 by simp
qed

text \<open>
  C10. When \<^verbatim>\<open>route print\<close> exits with a non-zero code, the check prints that the
  route information could not be retrieved and returns false: the same boolean as on a
  host whose table was read and has no line containing the subnet.
\<close>

theorem check_route_status_query_failure:
  "(run_reply w t [''route'', ''print''] = Ret r \<and> returncode r \<noteq> 0 \<longrightarrow>
      check_route_status w subnet t =
        (Ret False, t @ [Run [''route'', ''print''],
                         Print ''Failed to retrieve route information.'']))
   \<and> (run_reply w' t [''route'', ''print''] = Ret r' \<and> returncode r' = 0
        \<and> \<not> (\<exists>l \<in> set (splitlines (stdout r')). sublist subnet l) \<longrightarrow>
      fst (check_route_status w' subnet t) = Ret False)"
  by (simp add: check_route_status_eq route_loop_result)

theorem check_route_status_query_failure_witness:
  "returncode (reply_print_fails [''route'', ''print'']) \<noteq> 0
   \<and> check_route_status (host reply_print_fails []) ''172.16.0.0'' [] =
        (Ret False, [Run [''route'', ''print''], Print ''Failed to retrieve route information.''])
   \<and> returncode (reply_default_route_only [''route'', ''print'']) = 0
   \<and> fst (check_route_status (host reply_default_route_only []) ''172.16.0.0'' []) = Ret False"
proof -
  let ?r = "reply_print_fails [''route'', ''print'']"
  let ?r' = "reply_default_route_only [''route'', ''print'']"
  have rc: "returncode ?r \<noteq> 0" by (simp add: reply_print_fails_def)
  have rc': "returncode ?r' = 0" by (simp add: reply_default_route_only_def)
  have run: "run_reply (host reply_print_fails []) [] [''route'', ''print''] = Ret ?r"
    and run': "run_reply (host reply_default_route_only []) [] [''route'', ''print''] = Ret ?r'"
    by (simp_all add: host_def)
  have no: "\<not> (\<exists>l \<in> set (splitlines (stdout ?r')). sublist ''172.16.0.0'' l)"
    by (simp add: reply_default_route_only_def splitlines_default_route_only
          no_match_default_route_only del: append.simps)
  note th = check_route_status_query_failure
    [of "host reply_print_fails []" "[]" ?r "''172.16.0.0''" "host reply_default_route_only []" ?r']
  show ?thesis
    using th run rc run' rc' no by simp
qed

lemma main_after_cidr:
  assumes "present (cidr a) = Some c" and "IPv4Network c = Inr n" and "\<not> status a"
  shows "main w a t =
     try_except
       (bind (main_interface_index w a) (\<lambda>interface_idx.
        bind (main_gateway w a interface_idx) (\<lambda>gw.
          reconcile w (string_from_ip_int (network_address n)) (string_from_ip_int (netmask n))
            gw interface_idx (dry_run a))))
       is_KeyboardInterrupt
       (\<lambda>e. bind (print ([CHR 0x0A] @ ''Operation cancelled by user.''))
               (\<lambda>_. raise (SystemExit 0)))
       t"
  using assms by (simp add: main_def main_cidr_def parse_cidr_def try_except_def)

lemma main_starts_with_index_stage:
  assumes "present (cidr a) = Some c" and "IPv4Network c = Inr n" and "\<not> status a"
  shows "prefix (snd (main_interface_index w a t)) (snd (main w a t))"
  unfolding main_after_cidr [OF assms]
  by (rule try_except_bind_prefix)
     (auto intro!: grows_bind grows_main_gateway grows_reconcile
        simp del: bind_print bind_return bind_raise)

lemma py_int_7: "py_int ''7'' = Inr 7"
  by code_simp

text \<open>
  C9. An interface index of 0 given by the caller is treated as no index at all. The
  index stage then prints the adapter heading, runs the adapter enumeration, prints
  what it answered, and prompts for the index; the stage ends with the integer the
  caller types (or with the error of the enumeration, of the prompt or of \<^verbatim>\<open>int\<close>),
  and the 0 is not used. Any other given index, such as 7, is used as it is, with no
  event. An invocation that gets as far as the index stage has these events at the front
  of its trace, and altogether behaves as if \<^verbatim>\<open>--interface-index\<close> had been left out.
\<close>

theorem interface_index_zero_is_absent:
  "main_interface_index w (a\<lparr>interface_index := Some 0\<rparr>) t =
     (case run_reply w (t @ [Print ''Available network adapters:''])
           
          [''powershell'', ''-Command'',
            ''Get-NetIPConfiguration | Select-Object InterfaceAlias, InterfaceIndex, IPv4Address, @''
            @ ''{Name='' @ [CHR 0x27] @ ''IPv4DefaultGateway'' @ [CHR 0x27]
            @ ''; Expression={$_.IPv4DefaultGateway.NextHop}}''] of
        Exc e \<Rightarrow>
          (Exc e, t @ [Print ''Available network adapters:'', Run 
          [''powershell'', ''-Command'',
            ''Get-NetIPConfiguration | Select-Object InterfaceAlias, InterfaceIndex, IPv4Address, @''
            @ ''{Name='' @ [CHR 0x27] @ ''IPv4DefaultGateway'' @ [CHR 0x27]
            @ ''; Expression={$_.IPv4DefaultGateway.NextHop}}'']])
      | Ret r \<Rightarrow>
          (let t1 = t @ [Print ''Available network adapters:'', Run 
          [''powershell'', ''-Command'',
            ''Get-NetIPConfiguration | Select-Object InterfaceAlias, InterfaceIndex, IPv4Address, @''
            @ ''{Name='' @ [CHR 0x27] @ ''IPv4DefaultGateway'' @ [CHR 0x27]
            @ ''; Expression={$_.IPv4DefaultGateway.NextHop}}'']]
                    @ (if returncode r = 0
                       then [Print ''Available Network Interfaces:'', Print (stdout r)]
                       else [Print (''Failed to retrieve network adapters:'' @ [CHR 0x0A]
                                    @ stderr r)])
           in case input_reply w t1 ''Enter the InterfaceIndex of the desired NIC: '' of
                Exc e \<Rightarrow>
                  (Exc e, t1 @ [Input ''Enter the InterfaceIndex of the desired NIC: ''])
              | Ret typed \<Rightarrow>
                  (case py_int typed of
                     Inr i \<Rightarrow>
                       (Ret i, t1 @ [Input ''Enter the InterfaceIndex of the desired NIC: ''])
                   | Inl msg \<Rightarrow>
                       (Exc (PyException ''ValueError'' msg),
                        t1 @ [Input ''Enter the InterfaceIndex of the desired NIC: '']))))
   \<and> main_interface_index w (a\<lparr>interface_index := Some 7\<rparr>) t = (Ret 7, t)
   \<and> main w (a\<lparr>interface_index := Some 0\<rparr>) = main w (a\<lparr>interface_index := None\<rparr>)
   \<and> (present (cidr a) = Some c \<and> IPv4Network c = Inr n \<and> \<not> status a \<longrightarrow>
        prefix (snd (main_interface_index w (a\<lparr>interface_index := Some 0\<rparr>) t))
               (snd (main w (a\<lparr>interface_index := Some 0\<rparr>) t)))"
proof -
  have stage: "main_interface_index w (a\<lparr>interface_index := Some 0\<rparr>) t =
     (case run_reply w (t @ [Print ''Available network adapters:''])
           
          [''powershell'', ''-Command'',
            ''Get-NetIPConfiguration | Select-Object InterfaceAlias, InterfaceIndex, IPv4Address, @''
            @ ''{Name='' @ [CHR 0x27] @ ''IPv4DefaultGateway'' @ [CHR 0x27]
            @ ''; Expression={$_.IPv4DefaultGateway.NextHop}}''] of
        Exc e \<Rightarrow>
          (Exc e, t @ [Print ''Available network adapters:'', Run 
          [''powershell'', ''-Command'',
            ''Get-NetIPConfiguration | Select-Object InterfaceAlias, InterfaceIndex, IPv4Address, @''
            @ ''{Name='' @ [CHR 0x27] @ ''IPv4DefaultGateway'' @ [CHR 0x27]
            @ ''; Expression={$_.IPv4DefaultGateway.NextHop}}'']])
      | Ret r \<Rightarrow>
          (let t1 = t @ [Print ''Available network adapters:'', Run 
          [''powershell'', ''-Command'',
            ''Get-NetIPConfiguration | Select-Object InterfaceAlias, InterfaceIndex, IPv4Address, @''
            @ ''{Name='' @ [CHR 0x27] @ ''IPv4DefaultGateway'' @ [CHR 0x27]
            @ ''; Expression={$_.IPv4DefaultGateway.NextHop}}'']]
                    @ (if returncode r = 0
                       then [Print ''Available Network Interfaces:'', Print (stdout r)]
                       else [Print (''Failed to retrieve network adapters:'' @ [CHR 0x0A]
                                    @ stderr r)])
           in case input_reply w t1 ''Enter the InterfaceIndex of the desired NIC: '' of
                Exc e \<Rightarrow>
                  (Exc e, t1 @ [Input ''Enter the InterfaceIndex of the desired NIC: ''])
              | Ret typed \<Rightarrow>
                  (case py_int typed of
                     Inr i \<Rightarrow>
                       (Ret i, t1 @ [Input ''Enter the InterfaceIndex of the desired NIC: ''])
                   | Inl msg \<Rightarrow>
                       (Exc (PyException ''ValueError'' msg),
                        t1 @ [Input ''Enter the InterfaceIndex of the desired NIC: '']))))"
    by (simp add: main_interface_index_def present_int_def get_network_adapters_def
          bind_assoc bind_subprocess_run bind_input return_def raise_def Let_def
          split: result.split sum.split)
  have given: "main_interface_index w (a\<lparr>interface_index := Some 7\<rparr>) t = (Ret 7, t)"
    by (simp add: main_interface_index_def present_int_def return_def)
  have same: "main w (a\<lparr>interface_index := Some 0\<rparr>) = main w (a\<lparr>interface_index := None\<rparr>)"
    by (rule main_cong)
       (simp_all add: fun_eq_iff main_cidr_def main_interface_index_def main_gateway_def
          present_int_def)
  have front: "prefix (snd (main_interface_index w (a\<lparr>interface_index := Some 0\<rparr>) t))
               (snd (main w (a\<lparr>interface_index := Some 0\<rparr>) t))"
    if "present (cidr a) = Some c" and "IPv4Network c = Inr n" and "\<not> status a"
    using that by (intro main_starts_with_index_stage [of _ c n]) simp_all
  show ?thesis
    using stage given same front by blast
qed

theorem interface_index_zero_is_absent_witness:
  "present (cidr \<lparr>cidr = Some ''172.16.0.0/12'', gateway = Some ''192.168.1.1'',
                  interface_index = Some 7, dry_run = True, status = False\<rparr>)
     = Some ''172.16.0.0/12''
   \<and> IPv4Network ''172.16.0.0/12'' =
       Inr \<lparr>network_address = 2886729728, netmask = 4293918720, prefixlen = 12\<rparr>
   \<and> prefix [Print ''Available network adapters:'', Run 
          [''powershell'', ''-Command'',
            ''Get-NetIPConfiguration | Select-Object InterfaceAlias, InterfaceIndex, IPv4Address, @''
            @ ''{Name='' @ [CHR 0x27] @ ''IPv4DefaultGateway'' @ [CHR 0x27]
            @ ''; Expression={$_.IPv4DefaultGateway.NextHop}}''],
              Print ''Available Network Interfaces:'', Print '' OK!'',
              Input ''Enter the InterfaceIndex of the desired NIC: '']
        (snd (main (host reply_ok ''7'')
               \<lparr>cidr = Some ''172.16.0.0/12'', gateway = Some ''192.168.1.1'',
                interface_index = Some 0, dry_run = True, status = False\<rparr> []))"
proof -
  let ?w = "host reply_ok ''7''"
  let ?a = "\<lparr>cidr = Some ''172.16.0.0/12'', gateway = Some ''192.168.1.1'',
              interface_index = Some 7, dry_run = True, status = False\<rparr>"
  let ?n = "\<lparr>network_address = 2886729728, netmask = 4293918720, prefixlen = 12\<rparr>"
  note th = interface_index_zero_is_absent [of ?w ?a "[]" "''172.16.0.0/12''" ?n]
  have p: "present (cidr ?a) = Some ''172.16.0.0/12''"
    by (simp add: present_def)
  have stage: "snd (main_interface_index ?w (?a\<lparr>interface_index := Some 0\<rparr>) []) =
      [Print ''Available network adapters:'', Run 
          [''powershell'', ''-Command'',
            ''Get-NetIPConfiguration | Select-Object InterfaceAlias, InterfaceIndex, IPv4Address, @''
            @ ''{Name='' @ [CHR 0x27] @ ''IPv4DefaultGateway'' @ [CHR 0x27]
            @ ''; Expression={$_.IPv4DefaultGateway.NextHop}}''],
       Print ''Available Network Interfaces:'', Print '' OK!'',
       Input ''Enter the InterfaceIndex of the desired NIC: '']"
    by (simp only: th [THEN conjunct1]) (simp add: host_def reply_ok_def py_int_7)
  have "prefix (snd (main_interface_index ?w (?a\<lparr>interface_index := Some 0\<rparr>) []))
               (snd (main ?w (?a\<lparr>interface_index := Some 0\<rparr>) []))"
    using th [THEN conjunct2, THEN conjunct2, THEN conjunct2] p IPv4Network_172_16_0_0_12
    by simp
  then show ?thesis
    using p IPv4Network_172_16_0_0_12 by (simp only: stage) simp
qed

text \<open>
  C5, as the code has it. Whatever the source of the CIDR text (the argument, the guest
  query or the prompt), when \<^verbatim>\<open>IPv4Network(cidr, strict=False)\<close> rejects it the
  invocation prints \<^verbatim>\<open>Invalid CIDR format:\<close> with the text and exits with status 1,
  and no route delete and no route add has been run. \<^verbatim>\<open>not-a-cidr\<close> and
  \<^verbatim>\<open>10.0.0.0/33\<close> are rejected. What the library accepts is not rejected, also when
  it is not of the form address/prefix: an address alone, and an address with a dotted
  netmask or hostmask.
\<close>

theorem invalid_cidr_aborts:
  assumes mc: "main_cidr w a t = (Ret c, t0)" and bad: "IPv4Network c = Inl e"
  shows "main w a t = (Exc (SystemExit 1), t0 @ [Print (''Invalid CIDR format: '' @ c)])
    \<and> exit_status (fst (main w a t)) = 1
    \<and> filter is_route_mutation (commands (snd (main w a t))) =
        filter is_route_mutation (commands t)"
proof -
  have m: "main w a t = (Exc (SystemExit 1), t0 @ [Print (''Invalid CIDR format: '' @ c)])"
    using bad mc
    by (simp add: main_def try_except_def bind_def parse_cidr_def raise_def print_def)
  have "filter is_route_mutation (commands t0) = filter is_route_mutation (commands t)"
    using main_cidr_commands [of w a t] mc by simp
  with m show ?thesis by simp
qed

lemma IPv4Network_not_a_cidr: "IPv4Network ''not-a-cidr'' = Inl AddressValueError"
  by code_simp

lemma IPv4Network_prefix_33: "IPv4Network ''10.0.0.0/33'' = Inl NetmaskValueError"
  by code_simp

theorem invalid_cidr_aborts_witness:
  "IPv4Network ''10.0.0.0/33'' = Inl NetmaskValueError
   \<and> main (host reply_no_route [])
        \<lparr>cidr = Some ''10.0.0.0/33'', gateway = Some ''192.168.1.1'',
         interface_index = Some 7, dry_run = False, status = False\<rparr> [] =
       (Exc (SystemExit 1), [Print ''Invalid CIDR format: 10.0.0.0/33''])
   \<and> IPv4Network ''not-a-cidr'' = Inl AddressValueError
   \<and> main (host reply_no_route [])
        \<lparr>cidr = Some ''not-a-cidr'', gateway = None,
         interface_index = None, dry_run = False, status = False\<rparr> [] =
       (Exc (SystemExit 1), [Print ''Invalid CIDR format: not-a-cidr''])"
proof -
  let ?w = "host reply_no_route []"
  let ?a = "\<lparr>cidr = Some ''10.0.0.0/33'', gateway = Some ''192.168.1.1'',
              interface_index = Some 7, dry_run = False, status = False\<rparr>"
  let ?b = "\<lparr>cidr = Some ''not-a-cidr'', gateway = None,
              interface_index = None, dry_run = False, status = False\<rparr>"
  have mca: "main_cidr ?w ?a [] = (Ret ''10.0.0.0/33'', [])"
    and mcb: "main_cidr ?w ?b [] = (Ret ''not-a-cidr'', [])"
    by (simp_all add: main_cidr_def present_def return_def)
  show ?thesis
    using invalid_cidr_aborts [OF mca IPv4Network_prefix_33]
      invalid_cidr_aborts [OF mcb IPv4Network_not_a_cidr]
    by (simp add: IPv4Network_prefix_33 IPv4Network_not_a_cidr)
qed

lemma IPv4Network_bare_address:
  "IPv4Network ''10.0.0.0'' =
     Inr \<lparr>network_address = 167772160, netmask = 4294967295, prefixlen = 32\<rparr>"
  by code_simp

lemma string_from_ip_int_10_0_0_0: "string_from_ip_int 167772160 = ''10.0.0.0''"
  by code_simp

lemma string_from_ip_int_all_ones: "string_from_ip_int 4294967295 = ''255.255.255.255''"
  by code_simp

lemma parse_cidr_bare_address:
  "parse_cidr ''10.0.0.0'' t = (Ret (''10.0.0.0'', ''255.255.255.255''), t)"
  by (simp add: parse_cidr_def return_def IPv4Network_bare_address
        string_from_ip_int_10_0_0_0 string_from_ip_int_all_ones)

lemma IPv4Network_hostmask:
  "IPv4Network ''10.1.2.3/0.0.255.255'' =
     Inr \<lparr>network_address = 167837696, netmask = 4294901760, prefixlen = 16\<rparr>"
  by code_simp

lemma string_from_ip_int_10_1_0_0: "string_from_ip_int 167837696 = ''10.1.0.0''"
  by code_simp

lemma string_from_ip_int_255_255_0_0: "string_from_ip_int 4294901760 = ''255.255.0.0''"
  by code_simp

text \<open>
  The claim as it is written fails: \<^verbatim>\<open>10.0.0.0\<close> has no prefix and
  \<^verbatim>\<open>10.1.2.3/0.0.255.255\<close> has a hostmask in place of one, yet neither is refused.
  The first is taken as 10.0.0.0/32, and the invocation deletes and adds that route and
  returns normally; the second parses to the subnet 10.1.0.0 with mask 255.255.0.0.
\<close>

theorem bare_address_not_rejected:
  "main (host reply_ok [])
     \<lparr>cidr = Some ''10.0.0.0'', gateway = Some ''192.168.1.1'',
      interface_index = Some 7, dry_run = False, status = False\<rparr> [] =
     (Ret (), [Run [''route'', ''delete'', ''10.0.0.0''],
               Print (''Deleted existing route for 10.0.0.0:'' @ [CHR 0x0A] @ '' OK!''),
               Run [''route'', ''add'', ''10.0.0.0'', ''MASK'', ''255.255.255.255'',
                    ''192.168.1.1'', ''IF'', ''7''],
               Print (''Static route added successfully:'' @ [CHR 0x0A] @ '' OK!'')])
   \<and> parse_cidr ''10.1.2.3/0.0.255.255'' [] = (Ret (''10.1.0.0'', ''255.255.0.0''), [])"
proof -
  let ?w = "host reply_ok []"
  let ?a = "\<lparr>cidr = Some ''10.0.0.0'', gateway = Some ''192.168.1.1'',
              interface_index = Some 7, dry_run = False, status = False\<rparr>"
  have rc: "reconcile ?w ''10.0.0.0'' ''255.255.255.255'' ''192.168.1.1'' 7 False [] =
     (Ret (), [Run [''route'', ''delete'', ''10.0.0.0''],
               Print (''Deleted existing route for 10.0.0.0:'' @ [CHR 0x0A] @ '' OK!''),
               Run [''route'', ''add'', ''10.0.0.0'', ''MASK'', ''255.255.255.255'',
                    ''192.168.1.1'', ''IF'', ''7''],
               Print (''Static route added successfully:'' @ [CHR 0x0A] @ '' OK!'')])"
    by (simp add: reconcile_live add_static_route_live host_def reply_ok_def str_int_7)
  have "main ?w ?a [] =
      try_except (reconcile ?w ''10.0.0.0'' ''255.255.255.255'' ''192.168.1.1'' 7 False)
        is_KeyboardInterrupt
        (\<lambda>e. bind (print ([CHR 0x0A] @ ''Operation cancelled by user.''))
                (\<lambda>_. raise (SystemExit 0))) []"
    using main_explicit [of ?a "''10.0.0.0''"
        "\<lparr>network_address = 167772160, netmask = 4294967295, prefixlen = 32\<rparr>"
        7 "''192.168.1.1''" ?w "[]"]
    by (simp add: present_def present_int_def IPv4Network_bare_address
          string_from_ip_int_10_0_0_0 string_from_ip_int_all_ones)
  then have m: "main ?w ?a [] =
     (Ret (), [Run [''route'', ''delete'', ''10.0.0.0''],
               Print (''Deleted existing route for 10.0.0.0:'' @ [CHR 0x0A] @ '' OK!''),
               Run [''route'', ''add'', ''10.0.0.0'', ''MASK'', ''255.255.255.255'',
                    ''192.168.1.1'', ''IF'', ''7''],
               Print (''Static route added successfully:'' @ [CHR 0x0A] @ '' OK!'')])"
    by (simp only:
          try_except_Ret
            [where body = "reconcile ?w ''10.0.0.0'' ''255.255.255.255'' ''192.168.1.1'' 7 False",
             OF rc])
  have "parse_cidr ''10.1.2.3/0.0.255.255'' [] = (Ret (''10.1.0.0'', ''255.255.0.0''), [])"
    by (simp add: parse_cidr_def return_def IPv4Network_hostmask
          string_from_ip_int_10_1_0_0 string_from_ip_int_255_255_0_0)
  with m show ?thesis by simp
qed

section \<open>The gateway stage\<close>

lemma get_gateway_from_nic_commands:
  "filter is_route_mutation (commands (snd (get_gateway_from_nic w i t))) =
     filter is_route_mutation (commands t)"
  by (simp add: get_gateway_from_nic_def bind_subprocess_run return_def is_route_mutation_def
        Let_def split: result.split)

lemma strip_newline: "strip [CHR 0x0A] = []"
  by code_simp

lemma get_gateway_from_nic_no_gateway:
  "fst (get_gateway_from_nic (host reply_no_gateway []) 7 []) = Ret None"
  by (simp add: get_gateway_from_nic_def bind_subprocess_run return_def host_def
        reply_no_gateway_def strip_newline)

text \<open>
  C6, as the code has it. When no gateway is given and the lookup by index returns
  nothing, the caller is prompted for the gateway, and no route delete or add has been
  run by then. Whatever line the prompt returns is the gateway, with no check at all: the
  delete and add steps run with it, also when it is the empty string. Only when the
  prompt raises (an interrupt, the end of input) do the delete and add steps not run.
  There is no failure for a gateway that was not provided.
\<close>

theorem gateway_prompt_unchecked:
  assumes "present (gateway a) = None"
    and g: "get_gateway_from_nic w i t = (Ret r, t1)"
    and "present r = None"
  shows "main_gateway w a i t =
       (input_reply w
          (t1 @ [Print ''Unable to determine the gateway. Please provide it manually.''])
          ''Enter the gateway IP address of the desired NIC: '',
        t1 @ [Print ''Unable to determine the gateway. Please provide it manually.'',
              Input ''Enter the gateway IP address of the desired NIC: ''])
   \<and> filter is_route_mutation (commands t1) = filter is_route_mutation (commands t)
   \<and> (input_reply w
          (t1 @ [Print ''Unable to determine the gateway. Please provide it manually.''])
          ''Enter the gateway IP address of the desired NIC: '' = Ret typed
      \<longrightarrow> bind (main_gateway w a i) (\<lambda>gw. reconcile w subnet mask_str gw i d) t =
            reconcile w subnet mask_str typed i d
              (t1 @ [Print ''Unable to determine the gateway. Please provide it manually.'',
                     Input ''Enter the gateway IP address of the desired NIC: '']))
   \<and> (input_reply w
          (t1 @ [Print ''Unable to determine the gateway. Please provide it manually.''])
          ''Enter the gateway IP address of the desired NIC: '' = Exc e
      \<longrightarrow> bind (main_gateway w a i) (\<lambda>gw. reconcile w subnet mask_str gw i d) t =
            (Exc e, t1 @ [Print ''Unable to determine the gateway. Please provide it manually.'',
                          Input ''Enter the gateway IP address of the desired NIC: '']))"
proof -
  have mg: "main_gateway w a i t =
       (input_reply w
          (t1 @ [Print ''Unable to determine the gateway. Please provide it manually.''])
          ''Enter the gateway IP address of the desired NIC: '',
        t1 @ [Print ''Unable to determine the gateway. Please provide it manually.'',
              Input ''Enter the gateway IP address of the desired NIC: ''])"
    using assms by (simp add: main_gateway_def bind_def input_def print_def)
  have "filter is_route_mutation (commands t1) = filter is_route_mutation (commands t)"
    using get_gateway_from_nic_commands [of w i t] g by simp
  then show ?thesis
    by (simp add: mg bind_def)
qed

theorem gateway_prompt_unchecked_witness:
  "present (gateway \<lparr>cidr = Some ''172.16.0.0/12'', gateway = None, interface_index = Some 7,
                     dry_run = False, status = False\<rparr>) = None
   \<and> fst (get_gateway_from_nic (host reply_no_gateway []) 7 []) = Ret None
   \<and> fst (main_gateway (host reply_no_gateway [])
             \<lparr>cidr = Some ''172.16.0.0/12'', gateway = None, interface_index = Some 7,
              dry_run = False, status = False\<rparr> 7 []) = Ret []"
proof -
  let ?w = "host reply_no_gateway []"
  let ?a = "\<lparr>cidr = Some ''172.16.0.0/12'', gateway = None, interface_index = Some 7,
              dry_run = False, status = False\<rparr>"
  have p: "present (gateway ?a) = None" and q: "present None = None"
    by (simp_all add: present_def)
  have g: "get_gateway_from_nic ?w 7 [] = (Ret None, snd (get_gateway_from_nic ?w 7 []))"
    using get_gateway_from_nic_no_gateway by (simp add: prod_eq_iff)
  have "fst (main_gateway ?w ?a 7 []) = Ret []"
    using gateway_prompt_unchecked [OF p g q, THEN conjunct1] by (simp add: host_def)
  then show ?thesis
    using p get_gateway_from_nic_no_gateway by simp
qed

text \<open>
  The claim as it is written fails: on a host whose adapter 7 has no gateway, with the
  caller answering the prompt with an empty line, the invocation returns normally and
  has run \<^verbatim>\<open>route add\<close> with the empty string in the gateway's place.
\<close>

theorem route_add_with_empty_gateway:
  "fst (main (host reply_no_gateway [])
          \<lparr>cidr = Some ''172.16.0.0/12'', gateway = None, interface_index = Some 7,
           dry_run = False, status = False\<rparr> []) = Ret ()
   \<and> filter is_route_mutation
        (commands (snd (main (host reply_no_gateway [])
          \<lparr>cidr = Some ''172.16.0.0/12'', gateway = None, interface_index = Some 7,
           dry_run = False, status = False\<rparr> []))) =
       [[''route'', ''delete'', ''172.16.0.0''],
        [''route'', ''add'', ''172.16.0.0'', ''MASK'', ''255.240.0.0'', [], ''IF'', ''7'']]"
proof -
  let ?w = "host reply_no_gateway []"
  let ?a = "\<lparr>cidr = Some ''172.16.0.0/12'', gateway = None, interface_index = Some 7,
              dry_run = False, status = False\<rparr>"
  let ?ask = "[Print ''Unable to determine the gateway. Please provide it manually.'',
               Input ''Enter the gateway IP address of the desired NIC: '']"
  obtain t1 where g: "get_gateway_from_nic ?w 7 [] = (Ret None, t1)"
    using get_gateway_from_nic_no_gateway by (cases "get_gateway_from_nic ?w 7 []") simp
  have c1: "filter is_route_mutation (commands t1) = []"
    using get_gateway_from_nic_commands [of ?w 7 "[]"] g by simp
  have mg: "main_gateway ?w ?a 7 [] = (Ret [], t1 @ ?ask)"
    using g by (simp add: main_gateway_def present_def bind_def input_def print_def host_def)
  have rc: "reconcile ?w ''172.16.0.0'' ''255.240.0.0'' [] 7 False (t1 @ ?ask) =
      (Ret (), t1 @ ?ask @
         [Run [''route'', ''delete'', ''172.16.0.0''],
          Print (''Deleted existing route for 172.16.0.0:'' @ [CHR 0x0A] @ '' OK!''),
          Run [''route'', ''add'', ''172.16.0.0'', ''MASK'', ''255.240.0.0'', [], ''IF'', ''7''],
          Print (''Static route added successfully:'' @ [CHR 0x0A] @ '' OK!'')])"
    by (simp add: reconcile_live add_static_route_live host_def reply_no_gateway_def str_int_7)
  have "main ?w ?a [] =
      (Ret (), t1 @ ?ask @
         [Run [''route'', ''delete'', ''172.16.0.0''],
          Print (''Deleted existing route for 172.16.0.0:'' @ [CHR 0x0A] @ '' OK!''),
          Run [''route'', ''add'', ''172.16.0.0'', ''MASK'', ''255.240.0.0'', [], ''IF'', ''7''],
          Print (''Static route added successfully:'' @ [CHR 0x0A] @ '' OK!'')])"
    by (simp only: main_def main_cidr_def main_interface_index_def present_def present_int_def
          args.simps option.case list.simps if_False bind_return
          bind_Ret [OF parse_cidr_172_16_0_0_12] prod.case
          bind_Ret [where m = "main_gateway ?w ?a 7", OF mg] rc try_except_def result.case
          numeral_eq_iff num.distinct zero_neq_numeral numeral_neq_zero)
  then show ?thesis
    using c1 by (simp add: is_route_mutation_def)
qed

section \<open>CIDR parsing\<close>

lemma ALL_ONES_mask: "ALL_ONES = mask 32"
  by (simp add: ALL_ONES_def mask_eq_exp_minus_1)

lemma ip_int_from_prefix_eq:
  assumes "n \<le> 32"
  shows "ip_int_from_prefix n = 2 ^ 32 - 2 ^ (32 - n)"
proof -
  have "ip_int_from_prefix n = mask 32 XOR mask (32 - n)"
    by (simp add: ip_int_from_prefix_def ALL_ONES_mask drop_bit_mask_eq)
  also have "\<dots> = push_bit (32 - n) (mask n)"
    using assms by (auto simp: bit_eq_iff bit_simps)
  also have "\<dots> = 2 ^ 32 - 2 ^ (32 - n)"
    using assms
    by (simp add: push_bit_eq_mult mask_eq_exp_minus_1 algebra_simps flip: power_add)
  finally show ?thesis .
qed

lemma and_netmask:
  fixes ip :: int
  assumes "n \<le> 32" and "0 \<le> ip" and "ip < 2 ^ 32"
  shows "ip AND (2 ^ 32 - 2 ^ (32 - n)) = ip - ip mod 2 ^ (32 - n)"
proof -
  have ip: "take_bit 32 ip = ip"
    using assms by (simp add: take_bit_int_eq_self)
  have m: "(2 ^ 32 - 2 ^ (32 - n) :: int) = push_bit (32 - n) (mask n)"
    using assms by (simp add: push_bit_eq_mult mask_eq_exp_minus_1 algebra_simps flip: power_add)
  have "ip AND push_bit (32 - n) (mask n) = push_bit (32 - n) (drop_bit (32 - n) (take_bit 32 ip))"
    using assms(1) by (auto simp: bit_eq_iff bit_simps)
  also have "\<dots> = ip div 2 ^ (32 - n) * 2 ^ (32 - n)"
    by (simp add: ip push_bit_eq_mult drop_bit_eq_div)
  also have "\<dots> = ip - ip mod 2 ^ (32 - n)"
    by (simp add: minus_mod_eq_div_mult)
  finally show ?thesis unfolding m .
qed

lemma split_on_no_sep: "sep \<notin> set s \<Longrightarrow> split_on sep s = [s]"
proof (induction s)
  case Nil
  show ?case by simp
next
  case (Cons c s)
  then have "c \<noteq> sep" and "split_on sep s = [s]" by auto
  then show ?case by simp
qed

lemma split_on_append:
  "sep \<notin> set s \<Longrightarrow> split_on sep (s @ sep # rest) = s # split_on sep rest"
proof (induction s)
  case Nil
  show ?case by simp
next
  case (Cons c s)
  then have "c \<noteq> sep" and "split_on sep (s @ sep # rest) = s # split_on sep rest" by auto
  then show ?case by simp
qed

lemma not_digit_separator: "\<not> is_digit CHR ''.''" "\<not> is_digit CHR ''/''"
  by (simp_all add: is_digit_def)

lemma digits_no_separator:
  "list_all is_digit s \<Longrightarrow> CHR ''.'' \<notin> set s \<and> CHR ''/'' \<notin> set s"
  using not_digit_separator by (auto simp: list_all_iff)

lemma parse_octet_SomeD:
  "parse_octet s = Some x \<Longrightarrow> s \<noteq> [] \<and> list_all is_digit s \<and> 0 \<le> x \<and> x \<le> 255"
  by (auto simp: parse_octet_def Let_def split: if_splits)

lemma prefix_from_prefix_string_InrD:
  "prefix_from_prefix_string p = Inr n \<Longrightarrow> list_all is_digit p \<and> n \<le> 32"
  by (auto simp: prefix_from_prefix_string_def split: if_splits sum.splits)

lemma ip_int_from_string_dotted:
  assumes "parse_octet o1 = Some x1" and "parse_octet o2 = Some x2"
    and "parse_octet o3 = Some x3" and "parse_octet o4 = Some x4"
  shows "ip_int_from_string (o1 @ ''.'' @ o2 @ ''.'' @ o3 @ ''.'' @ o4) =
           Inr (((x1 * 256 + x2) * 256 + x3) * 256 + x4)"
proof -
  note d = assms [THEN parse_octet_SomeD]
  have nd: "CHR ''.'' \<notin> set o1" "CHR ''.'' \<notin> set o2" "CHR ''.'' \<notin> set o3" "CHR ''.'' \<notin> set o4"
    using d digits_no_separator by simp_all
  have "split_on CHR ''.'' (o1 @ ''.'' @ o2 @ ''.'' @ o3 @ ''.'' @ o4) = [o1, o2, o3, o4]"
    using nd by (simp add: split_on_append split_on_no_sep)
  moreover have "o1 @ ''.'' @ o2 @ ''.'' @ o3 @ ''.'' @ o4 \<noteq> []"
    by simp
  ultimately show ?thesis
    using assms by (simp add: ip_int_from_string_def from_bytes_big_def del: append.simps)
qed

lemma IPv4Network_dotted_prefix:
  assumes "parse_octet o1 = Some x1" and "parse_octet o2 = Some x2"
    and "parse_octet o3 = Some x3" and "parse_octet o4 = Some x4"
    and p: "prefix_from_prefix_string p = Inr n"
  shows "IPv4Network (o1 @ ''.'' @ o2 @ ''.'' @ o3 @ ''.'' @ o4 @ ''/'' @ p) =
     Inr \<lparr>network_address = (((x1 * 256 + x2) * 256 + x3) * 256 + x4) AND ip_int_from_prefix n,
          netmask = ip_int_from_prefix n, prefixlen = n\<rparr>"
proof -
  let ?addr = "o1 @ ''.'' @ o2 @ ''.'' @ o3 @ ''.'' @ o4"
  note d = assms(1-4) [THEN parse_octet_SomeD]
  have ns: "CHR ''/'' \<notin> set ?addr"
    using d digits_no_separator by simp
  have np: "CHR ''/'' \<notin> set p"
    using prefix_from_prefix_string_InrD [OF p] digits_no_separator by simp
  have "o1 @ ''.'' @ o2 @ ''.'' @ o3 @ ''.'' @ o4 @ ''/'' @ p = ?addr @ CHR ''/'' # p"
    by simp
  then have sp: "split_on CHR ''/'' (o1 @ ''.'' @ o2 @ ''.'' @ o3 @ ''.'' @ o4 @ ''/'' @ p) = [?addr, p]"
    using split_on_append [OF ns, of p] split_on_no_sep [OF np] by simp
  have a: "IPv4Address ?addr = Inr (((x1 * 256 + x2) * 256 + x3) * 256 + x4)"
    using ns ip_int_from_string_dotted [OF assms(1-4)] by (simp only: IPv4Address_def if_False)
  have m: "make_netmask (Inr p) = Inr (ip_int_from_prefix n, n)"
    using p by (simp add: make_netmask_def)
  show ?thesis
    using a m
    by (simp only: IPv4Network_def split_addr_prefix_def split_optional_netmask_def sp Let_def)
       simp
qed

lemma parse_cidr_dotted_prefix:
  assumes "parse_octet o1 = Some x1" and "parse_octet o2 = Some x2"
    and "parse_octet o3 = Some x3" and "parse_octet o4 = Some x4"
    and p: "prefix_from_prefix_string p = Inr n"
  shows "parse_cidr (o1 @ ''.'' @ o2 @ ''.'' @ o3 @ ''.'' @ o4 @ ''/'' @ p) t =
     (Ret (string_from_ip_int
             ((((x1 * 256 + x2) * 256 + x3) * 256 + x4)
              - (((x1 * 256 + x2) * 256 + x3) * 256 + x4) mod 2 ^ (32 - n)),
           string_from_ip_int (2 ^ 32 - 2 ^ (32 - n))), t)"
proof -
  define ip where "ip = ((x1 * 256 + x2) * 256 + x3) * 256 + x4"
  note d = assms(1-4) [THEN parse_octet_SomeD]
  have n: "n \<le> 32"
    using prefix_from_prefix_string_InrD [OF p] by simp
  have lo: "0 \<le> ip" and hi: "ip < 2 ^ 32"
    using d by (simp_all add: ip_def)
  have net: "IPv4Network (o1 @ ''.'' @ o2 @ ''.'' @ o3 @ ''.'' @ o4 @ ''/'' @ p) =
     Inr \<lparr>network_address = ip AND ip_int_from_prefix n,
          netmask = ip_int_from_prefix n, prefixlen = n\<rparr>"
    unfolding ip_def by (rule IPv4Network_dotted_prefix [OF assms])
  have "ip AND ip_int_from_prefix n = ip - ip mod 2 ^ (32 - n)"
    using and_netmask [OF n lo hi] by (simp only: ip_int_from_prefix_eq [OF n])
  then show ?thesis
    unfolding ip_def [symmetric]
    by (simp only: parse_cidr_def net sum.case ipv4network.simps return_def
          ip_int_from_prefix_eq [OF n] ip_def)
qed

text \<open>
  C4. Take four octet strings that \<^verbatim>\<open>_parse_octet\<close> accepts and a prefix string that
  \<^verbatim>\<open>_prefix_from_prefix_string\<close> accepts, that is a syntactically valid
  \<^verbatim>\<open>a.b.c.d/n\<close>. Parsing it returns, in dotted-quad form, the address with its low
  \<open>32 - n\<close> bits cleared, and the mask whose top \<open>n\<close> of 32 bits are set; the mask
  depends on the prefix length alone. So \<^verbatim>\<open>172.16.5.37/12\<close> gives the subnet
  \<^verbatim>\<open>172.16.0.0\<close> and the mask \<^verbatim>\<open>255.240.0.0\<close>.
\<close>

theorem parse_cidr_network_and_mask:
  assumes "parse_octet o1 = Some x1" and "parse_octet o2 = Some x2"
    and "parse_octet o3 = Some x3" and "parse_octet o4 = Some x4"
    and "prefix_from_prefix_string p = Inr n"
  shows "parse_cidr (o1 @ ''.'' @ o2 @ ''.'' @ o3 @ ''.'' @ o4 @ ''/'' @ p) t =
     (let ip = ((x1 * 256 + x2) * 256 + x3) * 256 + x4 in
      (Ret (string_from_ip_int (ip - ip mod 2 ^ (32 - n)),
            string_from_ip_int (2 ^ 32 - 2 ^ (32 - n))), t))"
  unfolding Let_def using assms by (rule parse_cidr_dotted_prefix)

lemma parse_octet_172: "parse_octet ''172'' = Some 172" by code_simp
lemma parse_octet_16: "parse_octet ''16'' = Some 16" by code_simp
lemma parse_octet_5: "parse_octet ''5'' = Some 5" by code_simp
lemma parse_octet_37: "parse_octet ''37'' = Some 37" by code_simp
lemma prefix_12: "prefix_from_prefix_string ''12'' = Inr 12" by code_simp

theorem parse_cidr_network_and_mask_witness:
  "parse_octet ''172'' = Some 172 \<and> parse_octet ''16'' = Some 16
   \<and> parse_octet ''5'' = Some 5 \<and> parse_octet ''37'' = Some 37
   \<and> prefix_from_prefix_string ''12'' = Inr 12
   \<and> parse_cidr ''172.16.5.37/12'' [] = (Ret (''172.16.0.0'', ''255.240.0.0''), [])"
  using parse_cidr_network_and_mask [OF parse_octet_172 parse_octet_16 parse_octet_5 parse_octet_37 prefix_12, of "[]"]
  by (simp add: parse_octet_172 parse_octet_16 parse_octet_5 parse_octet_37 prefix_12
        string_from_ip_int_172_16_0_0 string_from_ip_int_255_240_0_0)

lemma parse_octet_str_int_all: "\<forall>x \<in> set [0..255]. parse_octet (str_int x) = Some x"
  by code_simp

lemma prefix_from_prefix_string_str_nat_all:
  "\<forall>n \<in> set [0..<33]. prefix_from_prefix_string (str_nat n) = Inr n"
  by code_simp

lemma parse_octet_str_int: "0 \<le> x \<Longrightarrow> x \<le> 255 \<Longrightarrow> parse_octet (str_int x) = Some x"
  using parse_octet_str_int_all by simp

lemma prefix_from_prefix_string_str_nat:
  "n \<le> 32 \<Longrightarrow> prefix_from_prefix_string (str_nat n) = Inr n"
  using prefix_from_prefix_string_str_nat_all by simp

text \<open>In particular every address and prefix length written in plain decimal is covered:
  all octets from 0 to 255 and all prefix lengths from 0 to 32.\<close>

lemma parse_cidr_canonical:
  assumes "0 \<le> x1" "x1 \<le> 255" "0 \<le> x2" "x2 \<le> 255" "0 \<le> x3" "x3 \<le> 255"
    "0 \<le> x4" "x4 \<le> 255" "n \<le> 32"
  shows "parse_cidr (str_int x1 @ ''.'' @ str_int x2 @ ''.'' @ str_int x3 @ ''.'' @ str_int x4
                     @ ''/'' @ str_nat n) t =
     (Ret (string_from_ip_int
             ((((x1 * 256 + x2) * 256 + x3) * 256 + x4)
              - (((x1 * 256 + x2) * 256 + x3) * 256 + x4) mod 2 ^ (32 - n)),
           string_from_ip_int (2 ^ 32 - 2 ^ (32 - n))), t)"
  using assms
  by (intro parse_cidr_dotted_prefix parse_octet_str_int prefix_from_prefix_string_str_nat)

end
